theory Spec2Isabelle
  imports Main "HOL-Library.Sublist" "HOL-Library.AList"
begin

section \<open>Python strings\<close>

text \<open>
  Python \<open>str\<close> values are modelled as \<open>string\<close>; the model covers ASCII text.
  Each helper below follows the \<open>str\<close> method of the same name.
\<close>

definition is_space :: "char \<Rightarrow> bool" where
  "is_space c = (c \<in> set [CHR '' '', CHR 0x09, CHR 0x0A, CHR 0x0B, CHR 0x0C, CHR 0x0D,
                            CHR 0x1C, CHR 0x1D, CHR 0x1E, CHR 0x1F])"

definition lstrip :: "string \<Rightarrow> string" where
  "lstrip s = dropWhile is_space s"

definition rstrip :: "string \<Rightarrow> string" where
  "rstrip s = rev (dropWhile is_space (rev s))"

definition strip :: "string \<Rightarrow> string" where
  "strip s = rstrip (lstrip s)"

definition lower_char :: "char \<Rightarrow> char" where
  "lower_char c =
     (case map_of (zip ''ABCDEFGHIJKLMNOPQRSTUVWXYZ'' ''abcdefghijklmnopqrstuvwxyz'') c of
        Some d \<Rightarrow> d
      | None \<Rightarrow> c)"

definition lower :: "string \<Rightarrow> string" where
  "lower s = map lower_char s"

text \<open>\<open>sub in s\<close>: substring test.\<close>

fun contains :: "string \<Rightarrow> string \<Rightarrow> bool" where
  "contains sub [] = (sub = [])"
| "contains sub (c # cs) = (prefix sub (c # cs) \<or> contains sub cs)"

text \<open>\<open>s.replace(old, new)\<close> for a non-empty \<open>old\<close>: leftmost, non-overlapping.\<close>

function str_replace :: "string \<Rightarrow> string \<Rightarrow> string \<Rightarrow> string" where
  "str_replace old new s =
     (if old = [] then s
      else if s = [] then []
      else if prefix old s then new @ str_replace old new (drop (length old) s)
      else hd s # str_replace old new (tl s))"
  by pat_completeness auto
termination
  by (relation "measure (\<lambda>(old, new, s). length s)") (auto simp: prefix_def)

declare str_replace.simps [simp del]

text \<open>\<open>s.split(sep)\<close> for a one-character separator.\<close>

fun split_on :: "char \<Rightarrow> string \<Rightarrow> string list" where
  "split_on sep [] = [[]]"
| "split_on sep (c # cs) =
     (if c = sep then [] # split_on sep cs
      else (case split_on sep cs of
              [] \<Rightarrow> [[c]]
            | p # ps \<Rightarrow> (c # p) # ps))"

text \<open>\<open>sep.join(xs)\<close>.\<close>

fun join :: "string \<Rightarrow> string list \<Rightarrow> string" where
  "join sep [] = []"
| "join sep [x] = x"
| "join sep (x # y # ys) = x @ sep @ join sep (y # ys)"

subsection \<open>Integers and text\<close>

definition is_digit :: "char \<Rightarrow> bool" where
  "is_digit c = (c \<in> set ''0123456789'')"

definition digit_val :: "char \<Rightarrow> nat" where
  "digit_val c =
     (case map_of (zip ''0123456789'' [0, 1, 2, 3, 4, 5, 6, 7, 8, 9]) c of
        Some n \<Rightarrow> n
      | None \<Rightarrow> 0)"

definition digit_char :: "nat \<Rightarrow> char" where
  "digit_char n = ''0123456789'' ! (n mod 10)"

fun dec_nat :: "nat \<Rightarrow> string" where
  "dec_nat n = (if n < 10 then [digit_char n] else dec_nat (n div 10) @ [digit_char n])"

declare dec_nat.simps [simp del]

text \<open>\<open>str(n)\<close> and \<open>f"{n}"\<close> for an \<open>int\<close>.\<close>

definition str_int :: "int \<Rightarrow> string" where
  "str_int i = (if i < 0 then CHR ''-'' # dec_nat (nat (- i)) else dec_nat (nat i))"

text \<open>\<open>f"{n:02d}"\<close>: zero padding to width two, the sign counting towards the width.\<close>

definition fmt_02d :: "int \<Rightarrow> string" where
  "fmt_02d i = (if 0 \<le> i \<and> i < 10 then CHR ''0'' # str_int i else str_int i)"

text \<open>
  \<open>int(s)\<close> on a \<open>str\<close>: surrounding whitespace is ignored, one sign is allowed, and
  single underscores may separate digits. \<open>None\<close> stands for \<open>ValueError\<close>.
\<close>

fun digits_val :: "nat \<Rightarrow> string \<Rightarrow> nat option" where
  "digits_val acc [] = Some acc"
| "digits_val acc [c] = (if is_digit c then Some (acc * 10 + digit_val c) else None)"
| "digits_val acc (c # d # cs) =
     (if is_digit c then
        (if d = CHR ''_'' then
           (if cs = [] then None else
              (if is_digit (hd cs) then digits_val (acc * 10 + digit_val c) cs else None))
         else digits_val (acc * 10 + digit_val c) (d # cs))
      else None)"

definition int_of_str :: "string \<Rightarrow> int option" where
  "int_of_str s =
     (case strip s of
        [] \<Rightarrow> None
      | c # cs \<Rightarrow>
          if c = CHR ''-'' then
            (if cs = [] then None else map_option (\<lambda>n. - int n) (digits_val 0 cs))
          else if c = CHR ''+'' then
            (if cs = [] then None else map_option int (digits_val 0 cs))
          else map_option int (digits_val 0 (c # cs)))"

section \<open>Dates\<close>

text \<open>
  A \<open>datetime\<close>: the calendar date and the time of day in microseconds since midnight.
  The clock is assumed to stay inside the years \<open>datetime\<close> can represent.
\<close>

record datetime =
  dt_year :: int
  dt_month :: int
  dt_day :: int
  dt_tod :: int

definition is_leap :: "int \<Rightarrow> bool" where
  "is_leap y = (y mod 4 = 0 \<and> (y mod 100 \<noteq> 0 \<or> y mod 400 = 0))"

definition days_in_month :: "int \<Rightarrow> int \<Rightarrow> int" where
  "days_in_month y m =
     (if m = 2 then (if is_leap y then 29 else 28)
      else if m \<in> {4, 6, 9, 11} then 30 else 31)"

definition next_day :: "datetime \<Rightarrow> datetime" where
  "next_day d =
     (if dt_day d < days_in_month (dt_year d) (dt_month d) then d\<lparr>dt_day := dt_day d + 1\<rparr>
      else if dt_month d < 12 then d\<lparr>dt_month := dt_month d + 1, dt_day := 1\<rparr>
      else d\<lparr>dt_year := dt_year d + 1, dt_month := 1, dt_day := 1\<rparr>)"

text \<open>\<open>d + timedelta(days=n)\<close> for \<open>n \<ge> 0\<close>.\<close>

primrec add_days :: "nat \<Rightarrow> datetime \<Rightarrow> datetime" where
  "add_days 0 d = d"
| "add_days (Suc n) d = add_days n (next_day d)"

text \<open>\<open>d.toordinal()\<close>: day 1 is 0001-01-01, a Monday.\<close>

definition days_before_year :: "int \<Rightarrow> int" where
  "days_before_year y = (let p = y - 1 in p * 365 + p div 4 - p div 100 + p div 400)"

definition days_before_month :: "int \<Rightarrow> int \<Rightarrow> int" where
  "days_before_month y m = sum_list (map (days_in_month y) [1..m - 1])"

definition toordinal :: "datetime \<Rightarrow> int" where
  "toordinal d = days_before_year (dt_year d) + days_before_month (dt_year d) (dt_month d) + dt_day d"

text \<open>\<open>d.weekday()\<close>: Monday is 0.\<close>

definition weekday :: "datetime \<Rightarrow> nat" where
  "weekday d = nat ((toordinal d + 6) mod 7)"

text \<open>
  \<open>d.replace(year=y)\<close>: \<open>None\<close> stands for the \<open>ValueError\<close> raised when 29 February
  is moved into a year that is not a leap year.
\<close>

definition replace_year :: "datetime \<Rightarrow> int \<Rightarrow> datetime option" where
  "replace_year d y =
     (if dt_month d = 2 \<and> dt_day d = 29 \<and> \<not> is_leap y then None else Some (d\<lparr>dt_year := y\<rparr>))"

definition dt_less :: "datetime \<Rightarrow> datetime \<Rightarrow> bool" where
  "dt_less a b =
     (dt_year a < dt_year b \<or> (dt_year a = dt_year b \<and>
       (dt_month a < dt_month b \<or> (dt_month a = dt_month b \<and>
         (dt_day a < dt_day b \<or> (dt_day a = dt_day b \<and> dt_tod a < dt_tod b))))))"

definition pad2 :: "int \<Rightarrow> string" where
  "pad2 n = (if n < 10 then CHR ''0'' # str_int n else str_int n)"

definition pad4 :: "int \<Rightarrow> string" where
  "pad4 n = replicate (4 - length (str_int n)) CHR ''0'' @ str_int n"

definition day_names :: "string list" where
  "day_names = [''Monday'', ''Tuesday'', ''Wednesday'', ''Thursday'', ''Friday'', ''Saturday'', ''Sunday'']"

definition month_names :: "string list" where
  "month_names = [''January'', ''February'', ''March'', ''April'', ''May'', ''June'', ''July'',
                  ''August'', ''September'', ''October'', ''November'', ''December'']"

definition day_name :: "datetime \<Rightarrow> string" where
  "day_name d = day_names ! weekday d"

definition month_name :: "datetime \<Rightarrow> string" where
  "month_name d = (if 1 \<le> dt_month d \<and> dt_month d \<le> 12 then month_names ! nat (dt_month d - 1) else [])"

text \<open>\<open>d.strftime("%Y-%m-%d")\<close>\<close>

definition strftime_ymd :: "datetime \<Rightarrow> string" where
  "strftime_ymd d = pad4 (dt_year d) @ ''-'' @ pad2 (dt_month d) @ ''-'' @ pad2 (dt_day d)"

text \<open>\<open>d.strftime("%A, %B %d")\<close>\<close>

definition strftime_day_month :: "datetime \<Rightarrow> string" where
  "strftime_day_month d = day_name d @ '', '' @ month_name d @ '' '' @ pad2 (dt_day d)"

text \<open>\<open>d.strftime("%A, %B %d, %Y")\<close>\<close>

definition strftime_display :: "datetime \<Rightarrow> string" where
  "strftime_display d = strftime_day_month d @ '', '' @ pad4 (dt_year d)"

section \<open>Python values\<close>

text \<open>
  The values that travel through tool arguments and tool results are the ones JSON
  can carry. A \<open>dict\<close> is an association list in insertion order with distinct keys.
  A float is kept as its literal text and never interpreted.
\<close>

datatype json =
    JNull
  | JBool bool
  | JInt int
  | JFloat string
  | JStr string
  | JArr "json list"
  | JObj "(string \<times> json) list"

type_synonym pydict = "(string \<times> json) list"

text \<open>\<open>d.get(k, default)\<close>.\<close>

definition dict_get :: "pydict \<Rightarrow> string \<Rightarrow> json \<Rightarrow> json" where
  "dict_get d k dflt = (case map_of d k of Some v \<Rightarrow> v | None \<Rightarrow> dflt)"

datatype exn =
    ValueError string
  | TypeError string
  | AttributeError string
  | OverflowError string
  | JSONDecodeError string
  | OtherError string

text \<open>\<open>str(e)\<close> of a caught exception.\<close>

fun exn_str :: "exn \<Rightarrow> string" where
  "exn_str (ValueError m) = m"
| "exn_str (TypeError m) = m"
| "exn_str (AttributeError m) = m"
| "exn_str (OverflowError m) = m"
| "exn_str (JSONDecodeError m) = m"
| "exn_str (OtherError m) = m"

fun type_name :: "json \<Rightarrow> string" where
  "type_name JNull = ''NoneType''"
| "type_name (JBool b) = ''bool''"
| "type_name (JInt i) = ''int''"
| "type_name (JFloat s) = ''float''"
| "type_name (JStr s) = ''str''"
| "type_name (JArr xs) = ''list''"
| "type_name (JObj kvs) = ''dict''"

text \<open>
  Calling a \<open>str\<close> method on a value: any other type has no such attribute and the
  call raises \<open>AttributeError\<close>.
\<close>

fun str_receiver :: "string \<Rightarrow> json \<Rightarrow> exn + string" where
  "str_receiver meth (JStr s) = Inr s"
| "str_receiver meth v =
     Inl (AttributeError ([CHR 0x27] @ type_name v @ [CHR 0x27] @ '' object has no attribute ''
                          @ [CHR 0x27] @ meth @ [CHR 0x27]))"

section \<open>The environment\<close>

text \<open>
  What the code reads from outside: the clock (\<open>datetime.now()\<close>), the library parser
  \<open>datetime.strptime\<close> (\<open>None\<close> for its \<open>ValueError\<close>), and the text of the
  database server's timestamp for a new row.

  Floating-point arithmetic is not modelled. Where the code needs the value of a float
  (its truth value, its conversion by \<open>int\<close>) or the \<open>repr\<close> text of a value, the
  model asks the environment.
\<close>

record env =
  now :: datetime
  strptime :: "string \<Rightarrow> string \<Rightarrow> datetime option"
  db_now :: string
  float_is_zero :: "string \<Rightarrow> bool"
  float_int :: "string \<Rightarrow> exn + int"
  py_repr :: "json \<Rightarrow> string"

text \<open>Truth value of a Python object, as \<open>if x:\<close> and \<open>x or y\<close> read it.\<close>

fun truthy :: "env \<Rightarrow> json \<Rightarrow> bool" where
  "truthy E JNull = False"
| "truthy E (JBool b) = b"
| "truthy E (JInt i) = (i \<noteq> 0)"
| "truthy E (JFloat s) = (\<not> float_is_zero E s)"
| "truthy E (JStr s) = (s \<noteq> [])"
| "truthy E (JArr xs) = (xs \<noteq> [])"
| "truthy E (JObj kvs) = (kvs \<noteq> [])"

text \<open>\<open>int(v)\<close>. A \<open>bool\<close> is an \<open>int\<close> in Python.\<close>

fun py_int :: "env \<Rightarrow> json \<Rightarrow> exn + int" where
  "py_int E (JInt i) = Inr i"
| "py_int E (JBool b) = Inr (if b then 1 else 0)"
| "py_int E (JStr s) =
     (case int_of_str s of
        Some i \<Rightarrow> Inr i
      | None \<Rightarrow> Inl (ValueError (''invalid literal for int() with base 10: '' @ py_repr E (JStr s))))"
| "py_int E (JFloat s) = float_int E s"
| "py_int E v =
     Inl (TypeError (''int() argument must be a string, a bytes-like object or a real number, not ''
                     @ [CHR 0x27] @ type_name v @ [CHR 0x27]))"

text \<open>\<open>f"{v}"\<close> and \<open>str(v)\<close>.\<close>

fun fmt_value :: "env \<Rightarrow> json \<Rightarrow> string" where
  "fmt_value E (JStr s) = s"
| "fmt_value E (JInt i) = str_int i"
| "fmt_value E (JBool b) = (if b then ''True'' else ''False'')"
| "fmt_value E JNull = ''None''"
| "fmt_value E v = py_repr E v"

section \<open>The appointment store and the session store\<close>

text \<open>
  The tables \<open>appointments\<close> and \<open>users\<close> of \<open>app/db/models.py\<close>, and the Redis hash
  of a session (its status fields and the two metadata fields the executor writes). The database assigns
  appointment ids from a counter and accepts every row it is given; one executor call
  runs without interleaving with another.
\<close>

record appointment =
  appt_id :: int
  appt_user_id :: int
  appointment_date :: string
  appointment_time :: string
  appt_status :: string
  appt_purpose :: json
  appt_created_at :: string

record user =
  usr_id :: int
  usr_contact_number :: string
  usr_name :: "string option"

record session_hash =
  sess_status :: string
  sess_user_contact :: string
  sess_ws_active :: string
  meta_authenticated_user_id :: "int option"
  meta_authenticated_user_name :: "json option"

text \<open>
  The state one \<open>ToolExecutor\<close> works on: its own fields (\<open>self.session_id\<close>,
  \<open>self.user_id\<close>, \<open>self.user_name\<close>), the database and the session hashes.
\<close>

record state =
  self_session_id :: string
  self_user_id :: "int option"
  self_user_name :: "string option"
  appointments :: "appointment list"
  next_appointment_id :: int
  users :: "user list"
  redis_sessions :: "string \<Rightarrow> session_hash option"

definition AVAILABLE_SLOTS :: "string list" where
  "AVAILABLE_SLOTS = [''09:00'', ''10:00'', ''11:00'', ''14:00'', ''15:00'', ''16:00'', ''17:00'', ''18:00'']"

subsection \<open>Session metadata\<close>

text \<open>\<open>set_metadata\<close> writes only when the session key exists.\<close>

definition set_metadata_user_id :: "state \<Rightarrow> int \<Rightarrow> state" where
  "set_metadata_user_id st uid =
     (case redis_sessions st (self_session_id st) of
        None \<Rightarrow> st
      | Some h \<Rightarrow> st\<lparr>redis_sessions := (redis_sessions st)
                       (self_session_id st := Some (h\<lparr>meta_authenticated_user_id := Some uid\<rparr>))\<rparr>)"

definition set_metadata_user_name :: "state \<Rightarrow> json \<Rightarrow> state" where
  "set_metadata_user_name st nm =
     (case redis_sessions st (self_session_id st) of
        None \<Rightarrow> st
      | Some h \<Rightarrow> st\<lparr>redis_sessions := (redis_sessions st)
                       (self_session_id st := Some (h\<lparr>meta_authenticated_user_name := Some nm\<rparr>))\<rparr>)"

definition get_metadata_user_id :: "state \<Rightarrow> int option" where
  "get_metadata_user_id st =
     (case redis_sessions st (self_session_id st) of
        None \<Rightarrow> None
      | Some h \<Rightarrow> meta_authenticated_user_id h)"

text \<open>\<open>x or "User"\<close> for an optional name.\<close>

definition name_or_User :: "string option \<Rightarrow> string" where
  "name_or_User nm = (case nm of None \<Rightarrow> ''User'' | Some n \<Rightarrow> if n = [] then ''User'' else n)"

text \<open>\<open>ToolExecutor.__init__\<close>\<close>

definition ToolExecutor_init ::
  "state \<Rightarrow> string \<Rightarrow> int option \<Rightarrow> string option \<Rightarrow> state" where
  "ToolExecutor_init st sid uid uname =
     (let st1 = st\<lparr>self_session_id := sid, self_user_id := uid, self_user_name := uname\<rparr>
      in case uid of
           None \<Rightarrow> st1
         | Some u \<Rightarrow>
             if u = 0 then st1
             else set_metadata_user_name (set_metadata_user_id st1 u) (JStr (name_or_User uname)))"

text \<open>\<open>_get_current_user_id\<close>\<close>

definition get_current_user_id :: "state \<Rightarrow> int option" where
  "get_current_user_id st =
     (case self_user_id st of
        Some u \<Rightarrow> if u \<noteq> 0 then Some u else get_metadata_user_id st
      | None \<Rightarrow> get_metadata_user_id st)"

text \<open>
  The test \<open>if not user_id\<close> that follows every call of \<open>_get_current_user_id\<close>:
  \<open>None\<close> when there is no user id or the id is 0.
\<close>

definition authenticated_user :: "state \<Rightarrow> int option" where
  "authenticated_user st =
     (case get_current_user_id st of
        Some u \<Rightarrow> if u \<noteq> 0 then Some u else None
      | None \<Rightarrow> None)"

subsection \<open>Helper methods\<close>

definition success_false :: "string \<Rightarrow> pydict" where
  "success_false msg = [(''success'', JBool False), (''error'', JStr msg)]"

definition week_days :: "string list" where
  "week_days = [''monday'', ''tuesday'', ''wednesday'', ''thursday'', ''friday'', ''saturday'', ''sunday'']"

definition date_formats :: "string list" where
  "date_formats = [''%Y-%m-%d'', ''%d-%m-%Y'', ''%m/%d/%Y'', ''%d/%m/%Y'', ''%B %d'', ''%b %d'', ''%d %B'', ''%d %b'']"

text \<open>
  The loop over the formats in \<open>_parse_date\<close>. A \<open>ValueError\<close> of \<open>strptime\<close> or of
  \<open>replace\<close> moves on to the next format.
\<close>

fun try_formats :: "env \<Rightarrow> string \<Rightarrow> string list \<Rightarrow> datetime option" where
  "try_formats E s [] = None"
| "try_formats E s (fmt # fmts) =
     (case strptime E s fmt of
        None \<Rightarrow> try_formats E s fmts
      | Some parsed \<Rightarrow>
          if dt_year parsed = 1900 then
            (case replace_year parsed (dt_year (now E)) of
               None \<Rightarrow> try_formats E s fmts
             | Some p1 \<Rightarrow>
                 if dt_less p1 (now E) then
                   (case replace_year p1 (dt_year (now E) + 1) of
                      None \<Rightarrow> try_formats E s fmts
                    | Some p2 \<Rightarrow> Some p2)
                 else Some p1)
          else Some parsed)"

text \<open>The first weekday name, in the order of \<open>days\<close>, that occurs in the text.\<close>

fun first_day_in :: "string \<Rightarrow> nat \<Rightarrow> string list \<Rightarrow> nat option" where
  "first_day_in s i [] = None"
| "first_day_in s i (day # days) = (if contains day s then Some i else first_day_in s (Suc i) days)"

definition parse_formats :: "env \<Rightarrow> string \<Rightarrow> exn + datetime" where
  "parse_formats E s =
     (case try_formats E s date_formats of
        Some d \<Rightarrow> Inr d
      | None \<Rightarrow> Inl (ValueError (''Could not parse date: '' @ s)))"

text \<open>\<open>_parse_date\<close> on a \<open>str\<close>.\<close>

definition parse_date_str :: "env \<Rightarrow> string \<Rightarrow> exn + datetime" where
  "parse_date_str E date_str0 =
     (let date_str = strip (lower date_str0); today = now E in
      if date_str \<in> set [''today'', ''now''] then Inr today
      else if date_str = ''tomorrow'' then Inr (add_days 1 today)
      else if date_str = ''day after tomorrow'' then Inr (add_days 2 today)
      else if contains ''next'' date_str then
        (case first_day_in date_str 0 week_days of
           Some i \<Rightarrow>
             (let days_ahead = int i - int (weekday today);
                  days_ahead = (if days_ahead \<le> 0 then days_ahead + 7 else days_ahead)
              in Inr (add_days (nat days_ahead) today))
         | None \<Rightarrow>
             if contains ''week'' date_str then Inr (add_days 7 today)
             else parse_formats E date_str)
      else parse_formats E date_str)"

text \<open>\<open>_parse_date\<close> on whatever the argument map holds.\<close>

definition parse_date :: "env \<Rightarrow> json \<Rightarrow> exn + datetime" where
  "parse_date E v =
     (case str_receiver ''lower'' v of
        Inl e \<Rightarrow> Inl e
      | Inr s \<Rightarrow> parse_date_str E s)"

text \<open>The \<open>try\<close> block of \<open>_normalize_time\<close>: \<open>None\<close> when it raises.\<close>

definition parse_hour_minute :: "string \<Rightarrow> (int \<times> int) option" where
  "parse_hour_minute t =
     (if contains '':'' t then
        (case split_on CHR '':'' t of
           [h, m] \<Rightarrow>
             (case int_of_str h of
                None \<Rightarrow> None
              | Some hour \<Rightarrow>
                  if m = [] then Some (hour, 0)
                  else (case int_of_str m of None \<Rightarrow> None | Some minute \<Rightarrow> Some (hour, minute)))
         | _ \<Rightarrow> None)
      else map_option (\<lambda>hour. (hour, 0)) (int_of_str t))"

definition normalize_time_str :: "string \<Rightarrow> string" where
  "normalize_time_str time_str0 =
     (let t1 = strip (lower time_str0);
          t2 = str_replace '' '' [] t1;
          is_pm = (contains ''pm'' t2 \<or> contains ''p.m'' t2);
          is_am = (contains ''am'' t2 \<or> contains ''a.m'' t2);
          t3 = str_replace ''.'' [] (str_replace ''a.m.'' [] (str_replace ''p.m.'' []
                 (str_replace ''am'' [] (str_replace ''pm'' [] t2))))
      in case parse_hour_minute t3 of
           None \<Rightarrow> t3
         | Some (hour, minute) \<Rightarrow>
             (let hour = (if is_pm \<and> hour < 12 then hour + 12
                          else if is_am \<and> hour = 12 then 0 else hour)
              in fmt_02d hour @ '':'' @ fmt_02d minute))"

text \<open>\<open>_normalize_time\<close> on whatever the argument map holds.\<close>

definition normalize_time :: "json \<Rightarrow> exn + string" where
  "normalize_time v =
     (case str_receiver ''lower'' v of
        Inl e \<Rightarrow> Inl e
      | Inr s \<Rightarrow> Inr (normalize_time_str s))"

text \<open>\<open>if exclude_appointment_id:\<close> is false for \<open>None\<close> and for 0.\<close>

definition get_booked_slots_from_db :: "state \<Rightarrow> string \<Rightarrow> int option \<Rightarrow> string list" where
  "get_booked_slots_from_db st date exclude_appointment_id =
     map appointment_time
       (filter (\<lambda>a. appointment_date a = date \<and> appt_status a = ''scheduled'' \<and>
                     (case exclude_appointment_id of
                        None \<Rightarrow> True
                      | Some x \<Rightarrow> x = 0 \<or> appt_id a \<noteq> x))
               (appointments st))"

text \<open>Text order by code point, as Python compares \<open>str\<close>.\<close>

fun str_less :: "string \<Rightarrow> string \<Rightarrow> bool" where
  "str_less [] [] = False"
| "str_less [] (y # ys) = True"
| "str_less (x # xs) [] = False"
| "str_less (x # xs) (y # ys) =
     ((of_char x :: nat) < of_char y \<or> (x = y \<and> str_less xs ys))"

definition pair_less :: "string \<times> string \<Rightarrow> string \<times> string \<Rightarrow> bool" where
  "pair_less a b = (str_less (fst a) (fst b) \<or> (fst a = fst b \<and> str_less (snd a) (snd b)))"

text \<open>A stable sort by a key, for \<open>ORDER BY\<close> and \<open>list.sort(key=...)\<close>.\<close>

fun insert_by :: "('a \<Rightarrow> string \<times> string) \<Rightarrow> 'a \<Rightarrow> 'a list \<Rightarrow> 'a list" where
  "insert_by key x [] = [x]"
| "insert_by key x (y # ys) =
     (if pair_less (key y) (key x) then y # insert_by key x ys else x # y # ys)"

fun sort_by :: "('a \<Rightarrow> string \<times> string) \<Rightarrow> 'a list \<Rightarrow> 'a list" where
  "sort_by key [] = []"
| "sort_by key (x # xs) = insert_by key x (sort_by key xs)"

text \<open>The rows of one user, in the order of the query, before they are turned into dicts.\<close>

definition user_rows :: "state \<Rightarrow> int \<Rightarrow> appointment list" where
  "user_rows st uid =
     sort_by (\<lambda>a. (appointment_date a, appointment_time a))
       (filter (\<lambda>a. appt_user_id a = uid) (appointments st))"

definition appointment_dict :: "env \<Rightarrow> appointment \<Rightarrow> pydict" where
  "appointment_dict E a =
     [(''id'', JStr (str_int (appt_id a))),
      (''date'', JStr (appointment_date a)),
      (''time'', JStr (appointment_time a)),
      (''status'', JStr (appt_status a)),
      (''purpose'', if truthy E (appt_purpose a) then appt_purpose a else JStr []),
      (''created_at'', JStr (appt_created_at a))]"

definition get_user_appointments_from_db :: "env \<Rightarrow> state \<Rightarrow> int \<Rightarrow> pydict list" where
  "get_user_appointments_from_db E st uid = map (appointment_dict E) (user_rows st uid)"

section \<open>Tool implementations\<close>

text \<open>
  Each \<open>_execute_*\<close> method takes the environment, the state and the argument map and
  returns either the exception it raises (\<open>Inl\<close>) or its result dict (\<open>Inr\<close>), together
  with the state it leaves behind.
\<close>

type_synonym tool_result = "(exn + pydict) \<times> state"

definition not_authenticated :: pydict where
  "not_authenticated = success_false ''User not authenticated. Please log in first.''"

subsection \<open>\<open>identify_user\<close>\<close>

definition execute_identify_user :: "env \<Rightarrow> state \<Rightarrow> pydict \<Rightarrow> tool_result" where
  "execute_identify_user E st args =
     (case (case self_user_id st of Some u \<Rightarrow> if u \<noteq> 0 then Some u else None | None \<Rightarrow> None) of
        Some u \<Rightarrow>
          (Inr [(''success'', JBool True),
                (''message'', JStr (''User already authenticated as '' @ name_or_User (self_user_name st))),
                (''user_id'', JInt u),
                (''already_authenticated'', JBool True)], st)
      | None \<Rightarrow>
          (case str_receiver ''strip'' (dict_get args ''contact_number'' (JStr [])) of
             Inl e \<Rightarrow> (Inl e, st)
           | Inr raw \<Rightarrow>
               (let contact_number = filter is_digit (strip raw) in
                if length contact_number < 10 then
                  (Inr (success_false ''Invalid phone number. Please provide a 10-digit number.''), st)
                else
                  (case find (\<lambda>u. usr_contact_number u = contact_number) (users st) of
                     None \<Rightarrow>
                       (Inr (success_false ''No user found with that phone number. Please register first.''), st)
                   | Some u \<Rightarrow>
                       (let st1 = set_metadata_user_id st (usr_id u);
                            st2 = set_metadata_user_name st1
                                    (case usr_name u of None \<Rightarrow> JNull | Some n \<Rightarrow> JStr n);
                            st3 = st2\<lparr>self_user_id := Some (usr_id u), self_user_name := usr_name u\<rparr>;
                            existing = get_user_appointments_from_db E st3 (usr_id u)
                        in (Inr [(''success'', JBool True),
                                 (''user_id'', JInt (usr_id u)),
                                 (''user_name'', (case usr_name u of None \<Rightarrow> JNull | Some n \<Rightarrow> JStr n)),
                                 (''message'', JStr (''Welcome back, '' @ name_or_User (usr_name u) @ ''!'')),
                                 (''existing_appointments_count'', JInt (int (length existing)))],
                            st3))))))"

subsection \<open>\<open>fetch_slots\<close>\<close>

definition execute_fetch_slots :: "env \<Rightarrow> state \<Rightarrow> pydict \<Rightarrow> tool_result" where
  "execute_fetch_slots E st args =
     (case parse_date E (dict_get args ''date'' (JStr [])) of
        Inl (ValueError m) \<Rightarrow> (Inr (success_false (''Invalid date format: '' @ m)), st)
      | Inl e \<Rightarrow> (Inl e, st)
      | Inr date \<Rightarrow>
          (let date_formatted = strftime_ymd date;
               booked_slots = get_booked_slots_from_db st date_formatted None;
               available = filter (\<lambda>slot. slot \<notin> set booked_slots) AVAILABLE_SLOTS
           in (Inr [(''success'', JBool True),
                    (''date'', JStr date_formatted),
                    (''date_display'', JStr (strftime_display date)),
                    (''available_slots'', JArr (map JStr available)),
                    (''booked_slots'', JArr (map JStr booked_slots)),
                    (''message'', JStr (''Found '' @ str_int (int (length available))
                                        @ '' available slots on '' @ date_formatted))],
               st)))"

subsection \<open>\<open>book_appointment\<close>\<close>

text \<open>The loop over the user's appointments: does one of them hold the slot?\<close>

definition user_holds_slot :: "env \<Rightarrow> state \<Rightarrow> int \<Rightarrow> string \<Rightarrow> string \<Rightarrow> bool" where
  "user_holds_slot E st uid date_formatted time_str =
     (\<exists>appt \<in> set (get_user_appointments_from_db E st uid).
        dict_get appt ''date'' JNull = JStr date_formatted \<and>
        dict_get appt ''time'' JNull = JStr time_str \<and>
        dict_get appt ''status'' JNull = JStr ''scheduled'')"

text \<open>\<open>db.add\<close>, \<open>db.commit\<close>, \<open>db.refresh\<close>: the new row takes the next id.\<close>

definition insert_appointment ::
  "env \<Rightarrow> state \<Rightarrow> int \<Rightarrow> string \<Rightarrow> string \<Rightarrow> json \<Rightarrow> int \<times> state" where
  "insert_appointment E st uid date_formatted time_str purpose =
     (let new_appointment =
            \<lparr>appt_id = next_appointment_id st,
             appt_user_id = uid,
             appointment_date = date_formatted,
             appointment_time = time_str,
             appt_status = ''scheduled'',
             appt_purpose = purpose,
             appt_created_at = db_now E\<rparr>
      in (next_appointment_id st,
          st\<lparr>appointments := appointments st @ [new_appointment],
             next_appointment_id := next_appointment_id st + 1\<rparr>))"

definition execute_book_appointment :: "env \<Rightarrow> state \<Rightarrow> pydict \<Rightarrow> tool_result" where
  "execute_book_appointment E st args =
     (case authenticated_user st of
        None \<Rightarrow> (Inr not_authenticated, st)
      | Some uid \<Rightarrow>
          (let purpose = dict_get args ''purpose'' (JStr ''General appointment'') in
           case parse_date E (dict_get args ''date'' (JStr [])) of
             Inl (ValueError m) \<Rightarrow> (Inr (success_false (''Invalid date: '' @ m)), st)
           | Inl e \<Rightarrow> (Inl e, st)
           | Inr date \<Rightarrow>
               (let date_formatted = strftime_ymd date in
                case normalize_time (dict_get args ''time'' (JStr [])) of
                  Inl e \<Rightarrow> (Inl e, st)
                | Inr time_str \<Rightarrow>
                    if time_str \<notin> set AVAILABLE_SLOTS then
                      (Inr (success_false (''Invalid time slot. Available slots are: ''
                                           @ join '', '' AVAILABLE_SLOTS)), st)
                    else if time_str \<in> set (get_booked_slots_from_db st date_formatted None) then
                      (Inr (success_false (''Sorry, '' @ time_str @ '' on '' @ date_formatted
                                           @ '' is already booked. Please choose another slot.'')), st)
                    else if user_holds_slot E st uid date_formatted time_str then
                      (Inr (success_false ''You already have an appointment at this date and time.''), st)
                    else
                      (case insert_appointment E st uid date_formatted time_str purpose of
                         (appointment_id, st') \<Rightarrow>
                           (Inr [(''success'', JBool True),
                                 (''appointment_id'', JStr (str_int appointment_id)),
                                 (''date'', JStr date_formatted),
                                 (''date_display'', JStr (strftime_display date)),
                                 (''time'', JStr time_str),
                                 (''purpose'', purpose),
                                 (''message'', JStr (''Appointment booked for '' @ strftime_day_month date
                                                     @ '' at '' @ time_str))],
                            st')))))"

subsection \<open>\<open>retrieve_appointments\<close>\<close>

definition dict_str :: "pydict \<Rightarrow> string \<Rightarrow> string" where
  "dict_str d k = (case dict_get d k (JStr []) of JStr s \<Rightarrow> s | _ \<Rightarrow> [])"

definition execute_retrieve_appointments :: "env \<Rightarrow> state \<Rightarrow> pydict \<Rightarrow> tool_result" where
  "execute_retrieve_appointments E st args =
     (case authenticated_user st of
        None \<Rightarrow> (Inr not_authenticated, st)
      | Some uid \<Rightarrow>
          (let include_cancelled = dict_get args ''include_cancelled'' (JBool False);
               appointments0 = get_user_appointments_from_db E st uid;
               appointments1 =
                 (if \<not> truthy E include_cancelled
                  then filter (\<lambda>a. dict_get a ''status'' JNull \<noteq> JStr ''cancelled'') appointments0
                  else appointments0);
               appointments2 = sort_by (\<lambda>x. (dict_str x ''date'', dict_str x ''time'')) appointments1;
               today = strftime_ymd (now E);
               upcoming = filter (\<lambda>a. \<not> str_less (dict_str a ''date'') today \<and>
                                       dict_get a ''status'' JNull = JStr ''scheduled'') appointments2;
               past = filter (\<lambda>a. str_less (dict_str a ''date'') today \<or>
                                   dict_get a ''status'' JNull \<noteq> JStr ''scheduled'') appointments2
           in (Inr [(''success'', JBool True),
                    (''user_id'', JInt uid),
                    (''total_count'', JInt (int (length appointments2))),
                    (''upcoming'', JArr (map JObj upcoming)),
                    (''upcoming_count'', JInt (int (length upcoming))),
                    (''past'', JArr (map JObj past)),
                    (''past_count'', JInt (int (length past))),
                    (''message'', JStr (''Found '' @ str_int (int (length upcoming)) @ '' upcoming and ''
                                        @ str_int (int (length past)) @ '' past appointments''))],
               st)))"

subsection \<open>\<open>cancel_appointment\<close>\<close>

text \<open>\<open>db.query(Appointment).filter(Appointment.id == k).first()\<close>\<close>

definition find_appointment :: "state \<Rightarrow> int \<Rightarrow> appointment option" where
  "find_appointment st k = find (\<lambda>a. appt_id a = k) (appointments st)"

text \<open>Writing the fields of the row with id \<open>k\<close> and committing.\<close>

definition update_appointment :: "state \<Rightarrow> int \<Rightarrow> (appointment \<Rightarrow> appointment) \<Rightarrow> state" where
  "update_appointment st k f =
     st\<lparr>appointments := map (\<lambda>a. if appt_id a = k then f a else a) (appointments st)\<rparr>"

definition invalid_appointment_id :: "env \<Rightarrow> json \<Rightarrow> pydict" where
  "invalid_appointment_id E appointment_id =
     success_false (''Invalid appointment ID: '' @ fmt_value E appointment_id)"

definition appointment_not_found :: "env \<Rightarrow> json \<Rightarrow> pydict" where
  "appointment_not_found E appointment_id =
     success_false (''Appointment '' @ fmt_value E appointment_id @ '' not found.'')"

definition execute_cancel_appointment :: "env \<Rightarrow> state \<Rightarrow> pydict \<Rightarrow> tool_result" where
  "execute_cancel_appointment E st args =
     (case authenticated_user st of
        None \<Rightarrow> (Inr not_authenticated, st)
      | Some uid \<Rightarrow>
          (let appointment_id = dict_get args ''appointment_id'' (JStr []) in
           case py_int E appointment_id of
             Inl (ValueError m) \<Rightarrow> (Inr (invalid_appointment_id E appointment_id), st)
           | Inl e \<Rightarrow> (Inl e, st)
           | Inr k \<Rightarrow>
               (case find_appointment st k of
                  None \<Rightarrow> (Inr (appointment_not_found E appointment_id), st)
                | Some appointment \<Rightarrow>
                    if appt_user_id appointment \<noteq> uid then
                      (Inr (success_false (''This appointment doesn'' @ [CHR 0x27] @ ''t belong to you.'')), st)
                    else if appt_status appointment = ''cancelled'' then
                      (Inr (success_false ''This appointment is already cancelled.''), st)
                    else
                      (Inr [(''success'', JBool True),
                            (''appointment_id'', appointment_id),
                            (''date'', JStr (appointment_date appointment)),
                            (''time'', JStr (appointment_time appointment)),
                            (''message'', JStr (''Appointment on '' @ appointment_date appointment @ '' at ''
                                                @ appointment_time appointment @ '' has been cancelled.''))],
                       update_appointment st k (\<lambda>a. a\<lparr>appt_status := ''cancelled''\<rparr>)))))"

subsection \<open>\<open>modify_appointment\<close>\<close>

text \<open>The new date, when one is given: \<open>Inl\<close> carries what the method returns or raises early.\<close>

definition modify_target_date :: "env \<Rightarrow> appointment \<Rightarrow> json \<Rightarrow> (exn + pydict) + string" where
  "modify_target_date E appointment new_date =
     (if truthy E new_date then
        (case parse_date E new_date of
           Inl (ValueError m) \<Rightarrow> Inl (Inr (success_false (''Invalid new date: '' @ m)))
         | Inl e \<Rightarrow> Inl (Inl e)
         | Inr date_obj \<Rightarrow> Inr (strftime_ymd date_obj))
      else Inr (appointment_date appointment))"

definition modify_target_time :: "env \<Rightarrow> appointment \<Rightarrow> json \<Rightarrow> (exn + pydict) + string" where
  "modify_target_time E appointment new_time =
     (if truthy E new_time then
        (case normalize_time new_time of
           Inl e \<Rightarrow> Inl (Inl e)
         | Inr target_time \<Rightarrow>
             if target_time \<notin> set AVAILABLE_SLOTS then
               Inl (Inr (success_false (''Invalid time. Available: '' @ join '', '' AVAILABLE_SLOTS)))
             else Inr target_time)
      else Inr (appointment_time appointment))"

definition execute_modify_appointment :: "env \<Rightarrow> state \<Rightarrow> pydict \<Rightarrow> tool_result" where
  "execute_modify_appointment E st args =
     (case authenticated_user st of
        None \<Rightarrow> (Inr not_authenticated, st)
      | Some uid \<Rightarrow>
          (let appointment_id = dict_get args ''appointment_id'' (JStr []);
               new_date = dict_get args ''new_date'' JNull;
               new_time = dict_get args ''new_time'' JNull
           in
           if \<not> truthy E new_date \<and> \<not> truthy E new_time then
             (Inr (success_false ''Please specify a new date or time to modify.''), st)
           else
             (case py_int E appointment_id of
                Inl (ValueError m) \<Rightarrow> (Inr (invalid_appointment_id E appointment_id), st)
              | Inl e \<Rightarrow> (Inl e, st)
              | Inr k \<Rightarrow>
                  (case find_appointment st k of
                     None \<Rightarrow> (Inr (appointment_not_found E appointment_id), st)
                   | Some appointment \<Rightarrow>
                       if appt_user_id appointment \<noteq> uid then
                         (Inr (success_false (''This appointment doesn'' @ [CHR 0x27] @ ''t belong to you.'')), st)
                       else if appt_status appointment = ''cancelled'' then
                         (Inr (success_false ''Cannot modify a cancelled appointment.''), st)
                       else
                         (case modify_target_date E appointment new_date of
                            Inl r \<Rightarrow> (r, st)
                          | Inr target_date \<Rightarrow>
                              (case modify_target_time E appointment new_time of
                                 Inl r \<Rightarrow> (r, st)
                               | Inr target_time \<Rightarrow>
                                   if target_time \<in> set (get_booked_slots_from_db st target_date (Some k)) then
                                     (Inr (success_false (''Sorry, '' @ target_time @ '' on '' @ target_date
                                                          @ '' is already booked.'')), st)
                                   else
                                     (Inr [(''success'', JBool True),
                                           (''appointment_id'', appointment_id),
                                           (''old_date'', JStr (appointment_date appointment)),
                                           (''old_time'', JStr (appointment_time appointment)),
                                           (''new_date'', JStr target_date),
                                           (''new_time'', JStr target_time),
                                           (''message'', JStr (''Appointment changed from ''
                                               @ appointment_date appointment @ '' '' @ appointment_time appointment
                                               @ '' to '' @ target_date @ '' '' @ target_time))],
                                      update_appointment st k
                                        (\<lambda>a. a\<lparr>appointment_date := target_date,
                                                appointment_time := target_time\<rparr>))))))))"

subsection \<open>\<open>end_conversation\<close>\<close>

definition execute_end_conversation :: "env \<Rightarrow> state \<Rightarrow> pydict \<Rightarrow> tool_result" where
  "execute_end_conversation E st args =
     (Inr [(''success'', JBool True),
           (''reason'', dict_get args ''reason'' (JStr ''user_request'')),
           (''message'', JStr ''Ending conversation. Goodbye!'')], st)"

section \<open>\<open>ToolExecutor.execute\<close>\<close>

text \<open>
  \<open>getattr(self, f"_execute_{tool_name}", None)\<close>: the executor has exactly these seven
  attributes whose name starts with \<open>_execute_\<close>.
\<close>

definition tool_method :: "string \<Rightarrow> (env \<Rightarrow> state \<Rightarrow> pydict \<Rightarrow> tool_result) option" where
  "tool_method tool_name =
     (if tool_name = ''identify_user'' then Some execute_identify_user
      else if tool_name = ''fetch_slots'' then Some execute_fetch_slots
      else if tool_name = ''book_appointment'' then Some execute_book_appointment
      else if tool_name = ''retrieve_appointments'' then Some execute_retrieve_appointments
      else if tool_name = ''cancel_appointment'' then Some execute_cancel_appointment
      else if tool_name = ''modify_appointment'' then Some execute_modify_appointment
      else if tool_name = ''end_conversation'' then Some execute_end_conversation
      else None)"

definition execute :: "env \<Rightarrow> state \<Rightarrow> string \<Rightarrow> pydict \<Rightarrow> pydict \<times> state" where
  "execute E st tool_name arguments =
     (case tool_method tool_name of
        None \<Rightarrow> (success_false (''Unknown tool: '' @ tool_name), st)
      | Some method \<Rightarrow>
          (case method E st arguments of
             (Inr result, st') \<Rightarrow> (result, st')
           | (Inl e, st') \<Rightarrow> (success_false (exn_str e), st')))"

section \<open>JSON text\<close>

subsection \<open>\<open>json.dumps\<close>\<close>

text \<open>
  \<open>json.dumps\<close> with its default options: items separated by a comma and a space, keys
  from values by a colon and a space, every character outside the printable ASCII
  range escaped. The text of a float is asked from the environment.
\<close>

definition hex_digit :: "nat \<Rightarrow> char" where
  "hex_digit n = ''0123456789abcdef'' ! (n mod 16)"

definition escape_char :: "char \<Rightarrow> string" where
  "escape_char c =
     (if c = CHR 0x22 then [CHR 0x5C, CHR 0x22]
      else if c = CHR 0x5C then [CHR 0x5C, CHR 0x5C]
      else if c = CHR 0x0A then [CHR 0x5C, CHR ''n'']
      else if c = CHR 0x0D then [CHR 0x5C, CHR ''r'']
      else if c = CHR 0x09 then [CHR 0x5C, CHR ''t'']
      else if c = CHR 0x08 then [CHR 0x5C, CHR ''b'']
      else if c = CHR 0x0C then [CHR 0x5C, CHR ''f'']
      else if (of_char c :: nat) < 32 \<or> 126 < (of_char c :: nat)
        then [CHR 0x5C, CHR ''u'', CHR ''0'', CHR ''0'',
              hex_digit (of_char c div 16), hex_digit (of_char c)]
      else [c])"

definition dumps_str :: "string \<Rightarrow> string" where
  "dumps_str s = [CHR 0x22] @ concat (map escape_char s) @ [CHR 0x22]"

fun json_dumps :: "env \<Rightarrow> json \<Rightarrow> string"
  and dumps_items :: "env \<Rightarrow> json list \<Rightarrow> string list"
  and dumps_members :: "env \<Rightarrow> (string \<times> json) list \<Rightarrow> string list" where
  "json_dumps E JNull = ''null''"
| "json_dumps E (JBool b) = (if b then ''true'' else ''false'')"
| "json_dumps E (JInt i) = str_int i"
| "json_dumps E (JFloat s) = py_repr E (JFloat s)"
| "json_dumps E (JStr s) = dumps_str s"
| "json_dumps E (JArr vs) = ''['' @ join '', '' (dumps_items E vs) @ '']''"
| "json_dumps E (JObj kvs) = ''{'' @ join '', '' (dumps_members E kvs) @ ''}''"
| "dumps_items E [] = []"
| "dumps_items E (v # vs) = json_dumps E v # dumps_items E vs"
| "dumps_members E [] = []"
| "dumps_members E (kv # kvs) =
     (dumps_str (fst kv) @ '': '' @ json_dumps E (snd kv)) # dumps_members E kvs"

subsection \<open>\<open>json.loads\<close>\<close>

text \<open>
  \<open>json.loads\<close> on a \<open>str\<close>: a recursive-descent reader of the grammar the standard
  library accepts (including its \<open>NaN\<close>, \<open>Infinity\<close> and \<open>-Infinity\<close>). \<open>None\<close> stands
  for \<open>JSONDecodeError\<close>. A repeated key keeps its first position and its last value,
  as \<open>dict\<close> does. An escape \<open>\\uXXXX\<close> above \<open>00FF\<close> has no character in the model and
  is refused; the interpreter's limits on nesting depth and on the number of digits of
  an integer are not modelled.

  The reader carries a bound on its own call depth; \<open>json_loads\<close> starts it at twice
  the length of the text plus two, which no call chain on that text reaches.
\<close>

definition is_json_ws :: "char \<Rightarrow> bool" where
  "is_json_ws c = (c \<in> set [CHR '' '', CHR 0x09, CHR 0x0A, CHR 0x0D])"

definition skip_ws :: "string \<Rightarrow> string" where
  "skip_ws s = dropWhile is_json_ws s"

definition hex_val :: "char \<Rightarrow> nat option" where
  "hex_val c =
     map_of (zip ''0123456789abcdefABCDEF''
                 [0, 1, 2, 3, 4, 5, 6, 7, 8, 9, 10, 11, 12, 13, 14, 15, 10, 11, 12, 13, 14, 15]) c"

definition hex4 :: "char \<Rightarrow> char \<Rightarrow> char \<Rightarrow> char \<Rightarrow> nat option" where
  "hex4 a b c d =
     (case (hex_val a, hex_val b, hex_val c, hex_val d) of
        (Some h1, Some h2, Some h3, Some h4) \<Rightarrow> Some (((h1 * 16 + h2) * 16 + h3) * 16 + h4)
      | _ \<Rightarrow> None)"

definition simple_escape :: "char \<Rightarrow> char option" where
  "simple_escape e =
     map_of [(CHR 0x22, CHR 0x22), (CHR 0x5C, CHR 0x5C), (CHR ''/'', CHR ''/''),
             (CHR ''b'', CHR 0x08), (CHR ''f'', CHR 0x0C), (CHR ''n'', CHR 0x0A),
             (CHR ''r'', CHR 0x0D), (CHR ''t'', CHR 0x09)] e"

definition cons_to :: "char \<Rightarrow> (string \<times> string) option \<Rightarrow> (string \<times> string) option" where
  "cons_to c r = map_option (\<lambda>p. (c # fst p, snd p)) r"

text \<open>The characters of a string literal after its opening quote, and the rest.\<close>

fun parse_chars :: "string \<Rightarrow> (string \<times> string) option" where
  "parse_chars [] = None"
| "parse_chars [c] = (if c = CHR 0x22 then Some ([], []) else None)"
| "parse_chars (c # e # cs) =
     (if c = CHR 0x22 then Some ([], e # cs)
      else if c = CHR 0x5C then
        (if e = CHR ''u'' then
           (case cs of
              h1 # h2 # h3 # h4 # r \<Rightarrow>
                (case hex4 h1 h2 h3 h4 of
                   Some n \<Rightarrow> (if n < 256 then cons_to (char_of n) (parse_chars r) else None)
                 | None \<Rightarrow> None)
            | _ \<Rightarrow> None)
         else (case simple_escape e of
                 Some ch \<Rightarrow> cons_to ch (parse_chars cs)
               | None \<Rightarrow> None))
      else if (of_char c :: nat) < 32 then None
      else cons_to c (parse_chars (e # cs)))"

definition dec_val :: "string \<Rightarrow> nat" where
  "dec_val ds = foldl (\<lambda>a c. a * 10 + digit_val c) 0 ds"

text \<open>
  A number: \<open>-?(0|[1-9][0-9]*)(\.[0-9]+)?([eE][-+]?[0-9]+)?\<close>. Without fraction and
  exponent it is an \<open>int\<close>, otherwise a float, kept as its text.
\<close>

definition int_part :: "string \<Rightarrow> (string \<times> string) option" where
  "int_part s =
     (case s of
        [] \<Rightarrow> None
      | c # cs \<Rightarrow>
          if c = CHR ''0'' then Some ([c], cs)
          else if is_digit c then Some (takeWhile is_digit s, dropWhile is_digit s)
          else None)"

definition frac_part :: "string \<Rightarrow> string \<times> string" where
  "frac_part s =
     (case s of
        c # d # cs \<Rightarrow>
          if c = CHR ''.'' \<and> is_digit d
          then (c # takeWhile is_digit (d # cs), dropWhile is_digit (d # cs))
          else ([], s)
      | _ \<Rightarrow> ([], s))"

definition exp_digits :: "string \<Rightarrow> string \<Rightarrow> string \<Rightarrow> string \<times> string" where
  "exp_digits s pre ds =
     (if ds \<noteq> [] \<and> is_digit (hd ds)
      then (pre @ takeWhile is_digit ds, dropWhile is_digit ds)
      else ([], s))"

definition exp_part :: "string \<Rightarrow> string \<times> string" where
  "exp_part s =
     (case s of
        [] \<Rightarrow> ([], s)
      | c # cs \<Rightarrow>
          if c = CHR ''e'' \<or> c = CHR ''E'' then
            (case cs of
               [] \<Rightarrow> ([], s)
             | d # ds \<Rightarrow>
                 if d = CHR ''+'' \<or> d = CHR ''-'' then exp_digits s [c, d] ds
                 else exp_digits s [c] cs)
          else ([], s))"

definition parse_number :: "string \<Rightarrow> (json \<times> string) option" where
  "parse_number s =
     (let neg = prefix ''-'' s;
          s1 = (if neg then tl s else s)
      in case int_part s1 of
           None \<Rightarrow> None
         | Some (ds, r1) \<Rightarrow>
             (let (fr, r2) = frac_part r1;
                  (ex, r3) = exp_part r2
              in if fr = [] \<and> ex = []
                 then Some (JInt (if neg then - int (dec_val ds) else int (dec_val ds)), r3)
                 else Some (JFloat ((if neg then ''-'' else []) @ ds @ fr @ ex), r3)))"

definition parse_literal :: "string \<Rightarrow> (json \<times> string) option" where
  "parse_literal s =
     (if prefix ''null'' s then Some (JNull, drop 4 s)
      else if prefix ''true'' s then Some (JBool True, drop 4 s)
      else if prefix ''false'' s then Some (JBool False, drop 5 s)
      else if prefix ''NaN'' s then Some (JFloat ''NaN'', drop 3 s)
      else if prefix ''Infinity'' s then Some (JFloat ''Infinity'', drop 8 s)
      else if prefix ''-Infinity'' s then Some (JFloat ''-Infinity'', drop 9 s)
      else parse_number s)"

text \<open>\<open>dict\<close> built from the pairs in reading order.\<close>

definition dict_of_pairs :: "(string \<times> json) list \<Rightarrow> pydict" where
  "dict_of_pairs kvs = foldl (\<lambda>d kv. AList.update (fst kv) (snd kv) d) [] kvs"

fun parse_value :: "nat \<Rightarrow> string \<Rightarrow> (json \<times> string) option"
  and parse_elements :: "nat \<Rightarrow> string \<Rightarrow> (json list \<times> string) option"
  and parse_members :: "nat \<Rightarrow> string \<Rightarrow> ((string \<times> json) list \<times> string) option" where
  "parse_value 0 s = None"
| "parse_value (Suc n) s =
     (case s of
        [] \<Rightarrow> None
      | c # cs \<Rightarrow>
          if c = CHR 0x22 then map_option (\<lambda>p. (JStr (fst p), snd p)) (parse_chars cs)
          else if c = CHR ''{'' then
            (if prefix ''}'' (skip_ws cs) then Some (JObj [], tl (skip_ws cs))
             else map_option (\<lambda>p. (JObj (dict_of_pairs (fst p)), snd p))
                             (parse_members n (skip_ws cs)))
          else if c = CHR ''['' then
            (if prefix '']'' (skip_ws cs) then Some (JArr [], tl (skip_ws cs))
             else map_option (\<lambda>p. (JArr (fst p), snd p)) (parse_elements n (skip_ws cs)))
          else parse_literal s)"
| "parse_elements 0 s = None"
| "parse_elements (Suc n) s =
     (case parse_value n s of
        None \<Rightarrow> None
      | Some (v, r) \<Rightarrow>
          if prefix '','' (skip_ws r) then
            map_option (\<lambda>p. (v # fst p, snd p)) (parse_elements n (skip_ws (tl (skip_ws r))))
          else if prefix '']'' (skip_ws r) then Some ([v], tl (skip_ws r))
          else None)"
| "parse_members 0 s = None"
| "parse_members (Suc n) s =
     (if \<not> prefix [CHR 0x22] s then None
      else case parse_chars (tl s) of
             None \<Rightarrow> None
           | Some (k, r) \<Rightarrow>
               if \<not> prefix '':'' (skip_ws r) then None
               else case parse_value n (skip_ws (tl (skip_ws r))) of
                      None \<Rightarrow> None
                    | Some (v, r2) \<Rightarrow>
                        if prefix '','' (skip_ws r2) then
                          map_option (\<lambda>p. ((k, v) # fst p, snd p))
                                     (parse_members n (skip_ws (tl (skip_ws r2))))
                        else if prefix ''}'' (skip_ws r2) then Some ([(k, v)], tl (skip_ws r2))
                        else None)"

definition json_loads :: "string \<Rightarrow> json option" where
  "json_loads s =
     (case parse_value (2 * length s + 2) (skip_ws s) of
        None \<Rightarrow> None
      | Some (v, r) \<Rightarrow> if skip_ws r = [] then Some v else None)"

section \<open>Conversation history (\<open>app/core/session_manager.py\<close>)\<close>

text \<open>
  A conversation is a Redis list of JSON texts, one per message. The model keeps the
  message dicts themselves (\<open>json.dumps\<close> on writing and \<open>json.loads\<close> on reading
  return the same dict) in a map from session id to list, the empty list for a key that
  does not exist. The expiry of keys is not modelled.
\<close>

record ToolCall =
  tc_id :: string
  tc_name :: string
  tc_arguments :: pydict

text \<open>
  A stored message: \<open>role\<close> and \<open>content\<close> always, the keys \<open>tool_calls\<close>,
  \<open>tool_call_id\<close> and \<open>name\<close> only when \<open>add_message\<close> was given a true value
  (an absent key is the empty list or \<open>None\<close>).
\<close>

record message =
  msg_role :: string
  msg_content :: string
  msg_tool_calls :: "ToolCall list"
  msg_tool_call_id :: "string option"
  msg_name :: "string option"

type_synonym conversation_store = "string \<Rightarrow> message list"

text \<open>
  Redis \<open>LTRIM key start stop\<close>: negative indexes count from the end, both ends are
  inclusive and out-of-range indexes are clamped.
\<close>

definition ltrim :: "'a list \<Rightarrow> int \<Rightarrow> int \<Rightarrow> 'a list" where
  "ltrim xs start stop =
     (let n = int (length xs);
          a = (if start < 0 then max 0 (n + start) else start);
          b = (if stop < 0 then n + stop else min stop (n - 1))
      in if b < a then [] else take (nat (b - a + 1)) (drop (nat a) xs))"

definition init_conversation :: "conversation_store \<Rightarrow> string \<Rightarrow> string \<Rightarrow> conversation_store" where
  "init_conversation C session_id system_prompt =
     C(session_id := [\<lparr>msg_role = ''system'', msg_content = system_prompt,
                        msg_tool_calls = [], msg_tool_call_id = None, msg_name = None\<rparr>])"

text \<open>The dict \<open>add_message\<close> builds from its arguments (\<open>if tool_call_id:\<close>, \<open>if name:\<close>).\<close>

definition if_true :: "string option \<Rightarrow> string option" where
  "if_true v = (case v of None \<Rightarrow> None | Some s \<Rightarrow> if s = [] then None else Some s)"

definition new_message ::
  "string \<Rightarrow> string \<Rightarrow> ToolCall list \<Rightarrow> string option \<Rightarrow> string option \<Rightarrow> message" where
  "new_message role content tool_calls tool_call_id name =
     \<lparr>msg_role = role, msg_content = content, msg_tool_calls = tool_calls,
      msg_tool_call_id = if_true tool_call_id, msg_name = if_true name\<rparr>"

text \<open>\<open>rpush\<close>, then \<open>ltrim(key, -100, -1)\<close>.\<close>

definition add_message ::
  "conversation_store \<Rightarrow> string \<Rightarrow> string \<Rightarrow> string \<Rightarrow> ToolCall list \<Rightarrow> string option
     \<Rightarrow> string option \<Rightarrow> conversation_store" where
  "add_message C session_id role content tool_calls tool_call_id name =
     C(session_id :=
         ltrim (C session_id @ [new_message role content tool_calls tool_call_id name]) (- 100) (- 1))"

definition get_conversation :: "conversation_store \<Rightarrow> string \<Rightarrow> message list" where
  "get_conversation C session_id = C session_id"

definition get_user_turn_count :: "conversation_store \<Rightarrow> string \<Rightarrow> int" where
  "get_user_turn_count C session_id =
     int (length (filter (\<lambda>m. msg_role m = ''user'') (get_conversation C session_id)))"

subsection \<open>Session status\<close>

text \<open>\<open>set_status\<close> writes only when the session key exists; \<open>remove\<close> deletes both keys.\<close>

definition set_status :: "state \<Rightarrow> string \<Rightarrow> string \<Rightarrow> state" where
  "set_status st session_id status =
     (case redis_sessions st session_id of
        None \<Rightarrow> st
      | Some h \<Rightarrow> st\<lparr>redis_sessions := (redis_sessions st)
                       (session_id := Some (h\<lparr>sess_status := status\<rparr>))\<rparr>)"

section \<open>Cost tracking (\<open>app/services/cost_tracker.py\<close>)\<close>

text \<open>
  The counters kept under the cost key of a session. The audio duration is a float
  number of seconds in the source; the model keeps durations as whole microseconds.
  The amounts in USD that \<open>get_breakdown\<close> derives from the counters are floats and are
  not computed here.
\<close>

record cost_data =
  stt_audio_seconds :: int
  llm_input_tokens :: int
  llm_output_tokens :: int
  tts_characters :: int
  tavus_seconds :: int
  requests_stt :: int
  requests_llm :: int
  requests_tts :: int
  started_at :: string

type_synonym cost_store = "string \<Rightarrow> cost_data option"

definition get_data :: "string \<Rightarrow> cost_store \<Rightarrow> string \<Rightarrow> cost_data" where
  "get_data utcnow K session_id =
     (case K session_id of
        Some d \<Rightarrow> d
      | None \<Rightarrow> \<lparr>stt_audio_seconds = 0, llm_input_tokens = 0, llm_output_tokens = 0,
                  tts_characters = 0, tavus_seconds = 0, requests_stt = 0, requests_llm = 0,
                  requests_tts = 0, started_at = utcnow\<rparr>)"

definition track_stt :: "string \<Rightarrow> cost_store \<Rightarrow> string \<Rightarrow> int \<Rightarrow> cost_store" where
  "track_stt utcnow K session_id audio_seconds =
     (let d = get_data utcnow K session_id
      in K(session_id := Some (d\<lparr>stt_audio_seconds := stt_audio_seconds d + audio_seconds,
                                  requests_stt := requests_stt d + 1\<rparr>)))"

definition track_llm :: "string \<Rightarrow> cost_store \<Rightarrow> string \<Rightarrow> int \<Rightarrow> int \<Rightarrow> cost_store" where
  "track_llm utcnow K session_id input_tokens output_tokens =
     (let d = get_data utcnow K session_id
      in K(session_id := Some (d\<lparr>llm_input_tokens := llm_input_tokens d + input_tokens,
                                  llm_output_tokens := llm_output_tokens d + output_tokens,
                                  requests_llm := requests_llm d + 1\<rparr>)))"

definition track_tts :: "string \<Rightarrow> cost_store \<Rightarrow> string \<Rightarrow> int \<Rightarrow> cost_store" where
  "track_tts utcnow K session_id characters =
     (let d = get_data utcnow K session_id
      in K(session_id := Some (d\<lparr>tts_characters := tts_characters d + characters,
                                  requests_tts := requests_tts d + 1\<rparr>)))"

section \<open>The LLM interface (\<open>app/services/llm/base.py\<close>)\<close>

datatype MessageRole = SYSTEM | USER | ASSISTANT | TOOL

record LLMMessage =
  lm_role :: MessageRole
  lm_content :: string
  lm_name :: "string option"
  lm_tool_call_id :: "string option"
  lm_tool_calls :: "ToolCall list"

text \<open>
  A response: \<open>content\<close> may be \<open>None\<close>; \<open>usage\<close> is an optional dict of token counts.
\<close>

record LLMResponse =
  resp_content :: "string option"
  resp_tool_calls :: "ToolCall list"
  resp_usage :: "(string \<times> int) list option"

record TTSResponse =
  audio_base64 :: string
  tts_sample_rate :: int
  tts_duration_ms :: int
  visemes :: json

section \<open>The services around a voice session\<close>

text \<open>
  What a websocket turn asks from outside the process. The language model is any
  function of the iteration number and the messages it is shown, returning a response
  or raising; the real provider and the mock provider are two such functions, and
  \<open>real_provider_ok\<close> tells whether \<open>get_llm_provider(use_mock=False)\<close> returns. Speech
  synthesis catches its own errors and always returns audio. The summary request is a
  function of the stored history. \<open>time_time\<close> is the clock reading in microseconds,
  \<open>call_duration\<close> the text of the rounded call duration, and \<open>get_breakdown\<close> the dict
  of amounts computed from the counters.
\<close>

record services =
  tool_env :: env
  real_provider_ok :: bool
  real_generate :: "nat \<Rightarrow> LLMMessage list \<Rightarrow> exn + LLMResponse"
  mock_generate :: "nat \<Rightarrow> LLMMessage list \<Rightarrow> exn + LLMResponse"
  real_summary :: "message list \<Rightarrow> exn + LLMResponse"
  mock_summary :: "message list \<Rightarrow> exn + LLMResponse"
  synthesize :: "string \<Rightarrow> TTSResponse"
  b64decode :: "json \<Rightarrow> exn + string"
  transcript_of :: "string list \<Rightarrow> string"
  deepgram_connects :: bool
  utcnow_iso :: string
  time_time :: int
  call_duration :: string
  get_breakdown :: "cost_data \<Rightarrow> pydict"

text \<open>What the server put on the websocket: a JSON message or the close frame.\<close>

datatype ws_out = Send pydict | Close int

record summary_row =
  sum_user_id :: int
  sum_session_id :: string
  sum_summary :: "string option"
  sum_appointments_discussed :: "string option"
  sum_duration_seconds :: string

text \<open>
  Everything a turn can change: the executor with the database and the session hashes,
  the conversations, the cost counters, the messages sent to the client, the texts given
  to \<open>synthesize_speech\<close> and the table of conversation summaries.
\<close>

record world =
  store :: state
  conversations :: conversation_store
  costs :: cost_store
  outbox :: "ws_out list"
  spoken :: "string list"
  summaries :: "summary_row list"

section \<open>The agent loop (\<open>_process_llm_with_tools\<close> in \<open>app/api/voice.py\<close>)\<close>

definition MAX_TOOL_ITERATIONS :: nat where
  "MAX_TOOL_ITERATIONS = 10"

definition role_of :: "string \<Rightarrow> MessageRole" where
  "role_of role_str =
     (if role_str = ''system'' then SYSTEM
      else if role_str = ''assistant'' then ASSISTANT
      else if role_str = ''tool'' then TOOL
      else USER)"

definition redis_message_to_llm_message :: "message \<Rightarrow> LLMMessage" where
  "redis_message_to_llm_message msg =
     (if msg_role msg = ''tool'' then
        \<lparr>lm_role = TOOL, lm_content = msg_content msg, lm_name = msg_name msg,
         lm_tool_call_id = msg_tool_call_id msg, lm_tool_calls = []\<rparr>
      else if msg_role msg = ''assistant'' \<and> msg_tool_calls msg \<noteq> [] then
        \<lparr>lm_role = ASSISTANT, lm_content = msg_content msg, lm_name = None,
         lm_tool_call_id = None, lm_tool_calls = msg_tool_calls msg\<rparr>
      else
        \<lparr>lm_role = role_of (msg_role msg), lm_content = msg_content msg, lm_name = None,
         lm_tool_call_id = None, lm_tool_calls = []\<rparr>)"

definition redis_messages_to_llm_messages :: "message list \<Rightarrow> LLMMessage list" where
  "redis_messages_to_llm_messages messages = map redis_message_to_llm_message messages"

text \<open>\<open>"429" in error_str or "quota" in error_str.lower() or "ResourceExhausted" in error_str\<close>.\<close>

definition rate_limited :: "exn \<Rightarrow> bool" where
  "rate_limited e =
     (contains ''429'' (exn_str e) \<or> contains ''quota'' (lower (exn_str e))
      \<or> contains ''ResourceExhausted'' (exn_str e))"

definition usage_get :: "(string \<times> int) list \<Rightarrow> string \<Rightarrow> int" where
  "usage_get u k = (case map_of u k of Some n \<Rightarrow> n | None \<Rightarrow> 0)"

text \<open>\<open>if cost_tracker and llm_response.usage: cost_tracker.track_llm(...)\<close>.\<close>

definition track_usage :: "services \<Rightarrow> string \<Rightarrow> LLMResponse \<Rightarrow> world \<Rightarrow> world" where
  "track_usage V session_id resp w =
     (case resp_usage resp of
        None \<Rightarrow> w
      | Some u \<Rightarrow>
          if u = [] then w
          else w\<lparr>costs := track_llm (utcnow_iso V) (costs w) session_id
                              (usage_get u ''input_tokens'') (usage_get u ''output_tokens'')\<rparr>)"

text \<open>\<open>x or y\<close> on an optional string.\<close>

definition or_else :: "string option \<Rightarrow> string \<Rightarrow> string" where
  "or_else x y = (case x of None \<Rightarrow> y | Some s \<Rightarrow> if s = [] then y else s)"

text \<open>
  One pass of \<open>for tool_call in llm_response.tool_calls\<close>: the \<open>tool_call\<close> event, the
  execution, the \<open>tool_result\<close> event and the tool message in the history. The pair
  carried along is \<open>end_conversation\<close> and the world.
\<close>

definition run_tool_call :: "services \<Rightarrow> string \<Rightarrow> bool \<times> world \<Rightarrow> ToolCall \<Rightarrow> bool \<times> world" where
  "run_tool_call V session_id acc tool_call =
     (let w = snd acc;
          w1 = w\<lparr>outbox := outbox w @
                 [Send [(''type'', JStr ''tool_call''),
                        (''tool'', JStr (tc_name tool_call)),
                        (''tool_call_id'', JStr (tc_id tool_call)),
                        (''arguments'', JObj (tc_arguments tool_call)),
                        (''status'', JStr ''in_progress''),
                        (''message'', JStr (''Executing '' @ tc_name tool_call @ ''...''))]]\<rparr>;
          res = execute (tool_env V) (store w1) (tc_name tool_call) (tc_arguments tool_call);
          tool_result = fst res;
          end_conversation = (fst acc \<or> tc_name tool_call = ''end_conversation'');
          w2 = w1\<lparr>store := snd res,
                  outbox := outbox w1 @
                    [Send [(''type'', JStr ''tool_result''),
                           (''tool'', JStr (tc_name tool_call)),
                           (''tool_call_id'', JStr (tc_id tool_call)),
                           (''status'', dict_get tool_result ''status'' (JStr ''success'')),
                           (''result'', JObj tool_result)]]\<rparr>
      in (end_conversation,
          w2\<lparr>conversations := add_message (conversations w2) session_id ''tool''
                                   (json_dumps (tool_env V) (JObj tool_result)) []
                                   (Some (tc_id tool_call)) (Some (tc_name tool_call))\<rparr>))"

text \<open>
  What one iteration does with the response it obtained: with tool calls it stores the
  assistant message, runs the calls and goes round again; without, it stores the final
  text and returns it.
\<close>

datatype loop_step =
    Return "exn + string \<times> bool" world
  | Again bool bool world

definition handle_response :: "services \<Rightarrow> string \<Rightarrow> bool \<Rightarrow> bool \<Rightarrow> LLMResponse \<Rightarrow> world \<Rightarrow> loop_step" where
  "handle_response V session_id mock end_conversation llm_response w =
     (if resp_tool_calls llm_response \<noteq> [] then
        (let w1 = w\<lparr>conversations := add_message (conversations w) session_id ''assistant''
                                         (or_else (resp_content llm_response) [])
                                         (resp_tool_calls llm_response) None None\<rparr>;
             r = foldl (run_tool_call V session_id) (end_conversation, w1)
                       (resp_tool_calls llm_response)
         in Again mock (fst r) (snd r))
      else
        (let final_response = or_else (resp_content llm_response)
                                (''I'' @ [CHR 0x27] @ ''m sorry, I couldn'' @ [CHR 0x27]
                                 @ ''t generate a response.'')
         in Return (Inr (final_response, end_conversation))
                   (w\<lparr>conversations := add_message (conversations w) session_id ''assistant''
                                          final_response [] None None\<rparr>)))"

text \<open>
  The body of the \<open>while\<close> loop for the iteration numbered \<open>iteration\<close> (already
  incremented). \<open>mock\<close> tells which provider \<open>llm\<close> is bound to; a rate-limit error of
  the real provider rebinds it to the mock provider for the rest of the turn, and any
  other error leaves the function.
\<close>

definition loop_body :: "services \<Rightarrow> string \<Rightarrow> bool \<Rightarrow> nat \<Rightarrow> bool \<Rightarrow> world \<Rightarrow> loop_step" where
  "loop_body V session_id mock iteration end_conversation w =
     (let llm_messages = redis_messages_to_llm_messages
                           (get_conversation (conversations w) session_id)
      in case (if mock then mock_generate V iteration llm_messages
               else real_generate V iteration llm_messages) of
           Inr llm_response \<Rightarrow>
             handle_response V session_id mock end_conversation llm_response
                             (track_usage V session_id llm_response w)
         | Inl e \<Rightarrow>
             if rate_limited e then
               (case mock_generate V iteration llm_messages of
                  Inr llm_response \<Rightarrow>
                    handle_response V session_id True end_conversation llm_response w
                | Inl e2 \<Rightarrow> Return (Inl e2) w)
             else Return (Inl e) w)"

definition fallback_message :: string where
  "fallback_message =
     ''I apologize, but I'' @ [CHR 0x27]
     @ ''m having trouble processing your request. Could you please try again?''"

text \<open>
  \<open>while iteration < MAX_TOOL_ITERATIONS\<close>. The result is what the function returns
  or raises, the final value of \<open>iteration\<close>, and the world.
\<close>

function while_loop ::
  "services \<Rightarrow> string \<Rightarrow> bool \<Rightarrow> nat \<Rightarrow> bool \<Rightarrow> world \<Rightarrow> (exn + string \<times> bool) \<times> nat \<times> world" where
  "while_loop V session_id mock iteration end_conversation w =
     (if iteration < MAX_TOOL_ITERATIONS then
        (case loop_body V session_id mock (iteration + 1) end_conversation w of
           Return r w1 \<Rightarrow> (r, iteration + 1, w1)
         | Again mock1 end1 w1 \<Rightarrow> while_loop V session_id mock1 (iteration + 1) end1 w1)
      else (Inr (fallback_message, False), iteration, w))"
  by pat_completeness auto
termination
  by (relation "measure (\<lambda>(V, session_id, mock, iteration, end_conversation, w).
                           MAX_TOOL_ITERATIONS - iteration)") auto

declare while_loop.simps [simp del]

definition process_llm_with_tools ::
  "services \<Rightarrow> string \<Rightarrow> world \<Rightarrow> (exn + string \<times> bool) \<times> nat \<times> world" where
  "process_llm_with_tools V session_id w =
     while_loop V session_id (\<not> real_provider_ok V) 0 False w"

section \<open>The websocket message loop (\<open>voice_ws\<close> in \<open>app/api/voice.py\<close>)\<close>

text \<open>
  The local variables of one authenticated connection: the session id it is bound to, the
  user loaded at authentication, the start time of the current utterance and the
  Deepgram client (whether it is connected and the audio it was sent for the current
  utterance). The transcript Deepgram returns is a function of that audio.
\<close>

record connection =
  ws_session_id :: string
  ws_user :: user
  audio_start_time :: "int option"
  deepgram_connected :: bool
  deepgram_audio :: "string list"

text \<open>
  How one pass through the body of \<open>while True\<close> ends: \<open>continue\<close> (or the end of the
  body), \<open>break\<close>, or an exception that leaves the loop.
\<close>

datatype step = Continue | Break | Raised exn

definition audio_response ::
  "string \<Rightarrow> string \<Rightarrow> int \<Rightarrow> int \<Rightarrow> json \<Rightarrow> string \<Rightarrow> bool \<Rightarrow> ws_out" where
  "audio_response text audio_data sample_rate duration_ms vis user_transcript should_end_call =
     Send [(''type'', JStr ''audio_response''),
           (''text'', JStr text),
           (''audio_data'', JStr audio_data),
           (''audio_format'', JStr ''pcm_16000''),
           (''sample_rate'', JInt sample_rate),
           (''duration_ms'', JInt duration_ms),
           (''visemes'', vis),
           (''user_transcript'', JStr user_transcript),
           (''should_end_call'', JBool should_end_call)]"

text \<open>
  \<open>synthesize_speech(text)\<close>, \<open>cost_tracker.track_tts(len(text))\<close> and the
  \<open>audio_response\<close> message carrying the same text.
\<close>

definition speak :: "services \<Rightarrow> string \<Rightarrow> string \<Rightarrow> string \<Rightarrow> bool \<Rightarrow> world \<Rightarrow> world" where
  "speak V session_id text user_transcript should_end_call w =
     (let tts_response = synthesize V text;
          w1 = w\<lparr>spoken := spoken w @ [text]\<rparr>;
          w2 = w1\<lparr>costs := track_tts (utcnow_iso V) (costs w1) session_id (int (length text))\<rparr>
      in w2\<lparr>outbox := outbox w2 @
                [audio_response text (audio_base64 tts_response) (tts_sample_rate tts_response)
                   (tts_duration_ms tts_response) (visemes tts_response) user_transcript
                   should_end_call]\<rparr>)"

subsection \<open>\<open>audio_chunk\<close>\<close>

definition on_audio_chunk :: "services \<Rightarrow> connection \<Rightarrow> world \<Rightarrow> pydict \<Rightarrow> step \<times> connection \<times> world" where
  "on_audio_chunk V c w msg =
     (case b64decode V (dict_get msg ''data'' (JStr [])) of
        Inl e \<Rightarrow> (Continue, c, w)
      | Inr raw_bytes \<Rightarrow>
          (let c1 = (if audio_start_time c = None
                     then c\<lparr>audio_start_time := Some (time_time V)\<rparr> else c)
           in (Continue,
               if deepgram_connected c1
               then c1\<lparr>deepgram_audio := deepgram_audio c1 @ [raw_bytes]\<rparr> else c1,
               w)))"

subsection \<open>\<open>end_of_speech\<close>\<close>

definition trouble_repeat :: string where
  "trouble_repeat =
     ''I'' @ [CHR 0x27] @ ''m sorry, I had trouble processing that. Could you please repeat?''"

definition listening :: string where
  "listening = ''I'' @ [CHR 0x27] @ ''m listening. Please continue.''"

text \<open>
  The text of the turn and \<open>should_end_call\<close>: nothing for an empty transcript; otherwise
  the user message goes into the history and the agent loop runs, any exception of it
  being replaced by a fixed sentence.
\<close>

definition speech_turn :: "services \<Rightarrow> string \<Rightarrow> string \<Rightarrow> world \<Rightarrow> (string \<times> bool) \<times> world" where
  "speech_turn V session_id final_transcript w =
     (if strip final_transcript = [] then (([], False), w)
      else
        (let w1 = w\<lparr>conversations := add_message (conversations w) session_id ''user''
                                         final_transcript [] None None\<rparr>;
             r = process_llm_with_tools V session_id w1
         in case fst r of
              Inr res \<Rightarrow> (res, snd (snd r))
            | Inl e \<Rightarrow> ((trouble_repeat, False), snd (snd r))))"

definition on_end_of_speech :: "services \<Rightarrow> connection \<Rightarrow> world \<Rightarrow> step \<times> connection \<times> world" where
  "on_end_of_speech V c w =
     (let session_id = ws_session_id c;
          w1 = (case audio_start_time c of
                  None \<Rightarrow> w
                | Some t \<Rightarrow>
                    if t = 0 then w
                    else w\<lparr>costs := track_stt (utcnow_iso V) (costs w) session_id (time_time V - t)\<rparr>);
          final_transcript = (if deepgram_connected c
                              then strip (transcript_of V (deepgram_audio c)) else []);
          turn = speech_turn V session_id final_transcript w1;
          llm_response_text = fst (fst turn);
          should_end_call = snd (fst turn);
          response_text = (if llm_response_text = [] then listening else llm_response_text);
          w2 = speak V session_id response_text final_transcript should_end_call (snd turn)
      in (Continue,
          c\<lparr>audio_start_time := None, deepgram_connected := deepgram_connects V,
            deepgram_audio := []\<rparr>,
          w2))"

subsection \<open>\<open>text_input\<close>\<close>

definition trouble :: string where
  "trouble = ''I'' @ [CHR 0x27] @ ''m sorry, I had trouble processing that.''"

definition on_text_input :: "services \<Rightarrow> connection \<Rightarrow> world \<Rightarrow> pydict \<Rightarrow> step \<times> connection \<times> world" where
  "on_text_input V c w msg =
     (case str_receiver ''strip'' (dict_get msg ''text'' (JStr [])) of
        Inl e \<Rightarrow> (Raised e, c, w)
      | Inr s \<Rightarrow>
          (let text = strip s; session_id = ws_session_id c
           in if text = [] then (Continue, c, w)
              else
                (let w1 = w\<lparr>conversations := add_message (conversations w) session_id ''user''
                                                 text [] None None\<rparr>;
                     r = process_llm_with_tools V session_id w1;
                     w2 = snd (snd r)
                 in case fst r of
                      Inr res \<Rightarrow> (Continue, c, speak V session_id (fst res) text (snd res) w2)
                    | Inl e \<Rightarrow>
                        (Continue, c,
                         w2\<lparr>outbox := outbox w2 @
                               [audio_response trouble [] 16000 0 (JArr []) text False]\<rparr>))))"

subsection \<open>\<open>end_call\<close>\<close>

text \<open>\<open>ToolExecutor.get_session_appointments\<close>: the scheduled appointments of the user.\<close>

definition session_appointment :: "pydict \<Rightarrow> pydict" where
  "session_appointment a =
     [(''id'', dict_get a ''id'' JNull),
      (''date'', dict_get a ''date'' JNull),
      (''time'', dict_get a ''time'' JNull),
      (''status'', dict_get a ''status'' JNull),
      (''purpose'', dict_get a ''purpose'' (JStr []))]"

definition get_session_appointments :: "env \<Rightarrow> state \<Rightarrow> pydict list" where
  "get_session_appointments E st =
     (case authenticated_user st of
        None \<Rightarrow> []
      | Some user_id \<Rightarrow>
          map session_appointment
            (filter (\<lambda>a. dict_get a ''status'' JNull = JStr ''scheduled'')
                    (get_user_appointments_from_db E st user_id)))"

text \<open>
  The summary request: the real provider (the mock provider when the real one cannot be
  created); on an error text holding \<open>429\<close> or \<open>quota\<close> the mock provider answers
  instead, and any other error is raised. The usage is counted for a first answer only.
\<close>

definition summary_rate_limited :: "exn \<Rightarrow> bool" where
  "summary_rate_limited e =
     (contains ''429'' (exn_str e) \<or> contains ''quota'' (lower (exn_str e)))"

definition generate_summary :: "services \<Rightarrow> string \<Rightarrow> world \<Rightarrow> (exn + LLMResponse) \<times> world" where
  "generate_summary V session_id w =
     (let redis_messages = get_conversation (conversations w) session_id
      in case (if real_provider_ok V then real_summary V redis_messages
               else mock_summary V redis_messages) of
           Inr summary_response \<Rightarrow> (Inr summary_response, track_usage V session_id summary_response w)
         | Inl e \<Rightarrow>
             if summary_rate_limited e then (mock_summary V redis_messages, w)
             else (Inl e, w))"

definition opt_json :: "string option \<Rightarrow> json" where
  "opt_json x = (case x of None \<Rightarrow> JNull | Some s \<Rightarrow> JStr s)"

definition call_summary :: "json \<Rightarrow> string \<Rightarrow> int \<Rightarrow> pydict list \<Rightarrow> ws_out" where
  "call_summary summary duration total_turns appointments_booked =
     Send [(''type'', JStr ''call_summary''),
           (''summary'', summary),
           (''duration_seconds'', JFloat duration),
           (''total_turns'', JInt total_turns),
           (''appointments_booked'', JArr (map JObj appointments_booked))]"

definition cost_breakdown :: "services \<Rightarrow> string \<Rightarrow> world \<Rightarrow> ws_out" where
  "cost_breakdown V session_id w =
     Send [(''type'', JStr ''cost_breakdown''),
           (''costs'', JObj (get_breakdown V (get_data (utcnow_iso V) (costs w) session_id)))]"

text \<open>
  The row is stored when the summary text is there (the column is not nullable; the
  failure of the commit is caught and logged). An empty breakdown dict is not sent.
\<close>

definition on_end_call :: "services \<Rightarrow> connection \<Rightarrow> world \<Rightarrow> step \<times> connection \<times> world" where
  "on_end_call V c w =
     (let session_id = ws_session_id c;
          user_turns = get_user_turn_count (conversations w) session_id;
          g = generate_summary V session_id w;
          w1 = snd g;
          w2 =
            (case fst g of
               Inr summary_response \<Rightarrow>
                 (let appointments_booked = get_session_appointments (tool_env V) (store w1);
                      w3 = (case resp_content summary_response of
                              None \<Rightarrow> w1
                            | Some text \<Rightarrow>
                                w1\<lparr>summaries := summaries w1 @
                                      [\<lparr>sum_user_id = usr_id (ws_user c),
                                        sum_session_id = session_id,
                                        sum_summary = Some text,
                                        sum_appointments_discussed =
                                          (if appointments_booked = [] then None
                                           else Some (json_dumps (tool_env V)
                                                        (JArr (map JObj appointments_booked)))),
                                        sum_duration_seconds = call_duration V\<rparr>]\<rparr>);
                      w4 = w3\<lparr>outbox := outbox w3 @
                                 [call_summary (opt_json (resp_content summary_response))
                                    (call_duration V) user_turns appointments_booked]\<rparr>
                  in if get_breakdown V (get_data (utcnow_iso V) (costs w4) session_id) = [] then w4
                     else w4\<lparr>outbox := outbox w4 @ [cost_breakdown V session_id w4]\<rparr>)
             | Inl e \<Rightarrow>
                 w1\<lparr>outbox := outbox w1 @
                       [call_summary (JStr ''Call ended. Summary generation failed due to service limits.'')
                          (call_duration V) user_turns [],
                        cost_breakdown V session_id w1]\<rparr>)
      in (Break, c,
          w2\<lparr>store := set_status (store w2) session_id ''ended'',
              outbox := outbox w2 @ [Close 1000]\<rparr>))"

subsection \<open>One message\<close>

text \<open>
  The body of \<open>while True\<close> for the text \<open>raw\<close> received from the client. A text that is
  not JSON, or is JSON but not an object, raises and leaves the loop (the text of the
  decoding error is not modelled). A message whose
  \<open>session_id\<close> is not the bound one is skipped by \<open>continue\<close> before anything else is
  looked at; a missing \<open>session_id\<close> reads as \<open>None\<close>.
\<close>

definition voice_ws_message :: "services \<Rightarrow> connection \<Rightarrow> world \<Rightarrow> string \<Rightarrow> step \<times> connection \<times> world" where
  "voice_ws_message V c w raw =
     (case json_loads raw of
        None \<Rightarrow> (Raised (JSONDecodeError []), c, w)
      | Some (JObj msg) \<Rightarrow>
          (let mtype = dict_get msg ''type'' JNull;
               msg_sid = dict_get msg ''session_id'' JNull
           in if msg_sid \<noteq> JStr (ws_session_id c) then (Continue, c, w)
              else if mtype = JStr ''audio_chunk'' then on_audio_chunk V c w msg
              else if mtype = JStr ''end_of_speech'' then on_end_of_speech V c w
              else if mtype = JStr ''end_call'' then on_end_call V c w
              else if mtype = JStr ''text_input'' then on_text_input V c w msg
              else (Continue, c, w))
      | Some v \<Rightarrow>
          (Raised (AttributeError ([CHR 0x27] @ type_name v @ [CHR 0x27]
                                   @ '' object has no attribute '' @ [CHR 0x27] @ ''get''
                                   @ [CHR 0x27])), c, w))"

text \<open>
  The connection as the handler leaves authentication: bound to the session, no utterance
  started, the Deepgram client just connected (or not).
\<close>

definition new_connection :: "services \<Rightarrow> string \<Rightarrow> user \<Rightarrow> connection" where
  "new_connection V session_id u =
     \<lparr>ws_session_id = session_id, ws_user = u, audio_start_time = None,
      deepgram_connected = deepgram_connects V, deepgram_audio = []\<rparr>"

section \<open>Tool calls written as text (\<open>app/api/llm_proxy.py\<close>)\<close>

subsection \<open>The regular expressions\<close>

text \<open>
  Each pattern of the source is matched at the start of a text and gives the captured
  groups and the text after the match. In every pattern a repetition is followed by a
  character outside its class (\<open>\w+\<close> by \<open>>\<close>, \<open>=\<close> or \<open>{\<close>; \<open>[^}]+\<close> by \<open>}\<close>), so
  the longest repetition is the only one that can match and no backtracking is needed.
  \<open>\w\<close> is a letter, a digit or the underscore.
\<close>

definition is_word :: "char \<Rightarrow> bool" where
  "is_word c =
     (let n = (of_char c :: nat)
      in (48 \<le> n \<and> n \<le> 57) \<or> (65 \<le> n \<and> n \<le> 90) \<or> n = 95 \<or> (97 \<le> n \<and> n \<le> 122)
         \<or> n \<in> set [170, 178, 179, 181, 185, 186, 188, 189, 190]
         \<or> (192 \<le> n \<and> n \<le> 214) \<or> (216 \<le> n \<and> n \<le> 246) \<or> 248 \<le> n)"

text \<open>\<open><function=(\w+)\<close>\<close>

definition match_head :: "string \<Rightarrow> (string \<times> string) option" where
  "match_head s =
     (if prefix ''<function='' s \<and> takeWhile is_word (drop 10 s) \<noteq> []
      then Some (takeWhile is_word (drop 10 s), dropWhile is_word (drop 10 s))
      else None)"

text \<open>\<open>(\{[^}]+\})\<close>\<close>

definition match_payload :: "string \<Rightarrow> (string \<times> string) option" where
  "match_payload s =
     (case s of
        [] \<Rightarrow> None
      | c # cs \<Rightarrow>
          if c = CHR ''{'' \<and> takeWhile (\<lambda>x. x \<noteq> CHR ''}'') cs \<noteq> []
             \<and> dropWhile (\<lambda>x. x \<noteq> CHR ''}'') cs \<noteq> []
          then Some (CHR ''{'' # takeWhile (\<lambda>x. x \<noteq> CHR ''}'') cs @ ''}'',
                     tl (dropWhile (\<lambda>x. x \<noteq> CHR ''}'') cs))
          else None)"

text \<open>An optional character from a set, taken when it is there.\<close>

definition skip_opt :: "string \<Rightarrow> string \<Rightarrow> string" where
  "skip_opt cs s = (case s of [] \<Rightarrow> [] | c # r \<Rightarrow> if c \<in> set cs then r else s)"

definition skip_opt_str :: "string \<Rightarrow> string \<Rightarrow> string" where
  "skip_opt_str t s = (if prefix t s then drop (length t) s else s)"

type_synonym pattern = "string \<Rightarrow> ((string \<times> string) \<times> string) option"

text \<open>\<open><function=(\w+)>(\{[^}]+\})</function>\<close>\<close>

definition pattern1 :: pattern where
  "pattern1 s =
     (case match_head s of
        None \<Rightarrow> None
      | Some (name, r) \<Rightarrow>
          if \<not> prefix ''>'' r then None
          else (case match_payload (tl r) of
                  None \<Rightarrow> None
                | Some (payload, r2) \<Rightarrow>
                    if prefix ''</function>'' r2 then Some ((name, payload), drop 11 r2)
                    else None))"

text \<open>\<open><function=(\w+)=?(\{[^}]+\})>?\<close>\<close>

definition pattern2 :: pattern where
  "pattern2 s =
     (case match_head s of
        None \<Rightarrow> None
      | Some (name, r) \<Rightarrow>
          (case match_payload (skip_opt ''='' r) of
             None \<Rightarrow> None
           | Some (payload, r2) \<Rightarrow> Some ((name, payload), skip_opt ''>'' r2)))"

text \<open>\<open><function=(\w+)(\{[^}]+\})>?\<close>\<close>

definition pattern3 :: pattern where
  "pattern3 s =
     (case match_head s of
        None \<Rightarrow> None
      | Some (name, r) \<Rightarrow>
          (case match_payload r of
             None \<Rightarrow> None
           | Some (payload, r2) \<Rightarrow> Some ((name, payload), skip_opt ''>'' r2)))"

text \<open>\<open><function=\w+[=>]?\{[^}]+\}>?(?:</function>)?\<close>, the pattern that is removed.\<close>

definition markup :: pattern where
  "markup s =
     (case match_head s of
        None \<Rightarrow> None
      | Some (name, r) \<Rightarrow>
          (case match_payload (skip_opt ''=>'' r) of
             None \<Rightarrow> None
           | Some (payload, r2) \<Rightarrow>
               Some ((name, payload), skip_opt_str ''</function>'' (skip_opt ''>'' r2))))"

text \<open>
  \<open>re.findall\<close> and \<open>re.sub(pattern, '', text)\<close>: the text is scanned from the left; a
  match is taken where it is found and the scan goes on after it, otherwise one character
  further. The scan always moves by at least one character.
\<close>

definition advance :: "string \<Rightarrow> string \<Rightarrow> string" where
  "advance s rest = drop (max 1 (length s - length rest)) s"

function findall :: "pattern \<Rightarrow> string \<Rightarrow> (string \<times> string) list" where
  "findall p s =
     (if s = [] then []
      else (case p s of
              Some (m, rest) \<Rightarrow> m # findall p (advance s rest)
            | None \<Rightarrow> findall p (tl s)))"
  by pat_completeness auto
termination
  by (relation "measure (\<lambda>(p, s). length s)") (auto simp: advance_def)

declare findall.simps [simp del]

function remove_all :: "pattern \<Rightarrow> string \<Rightarrow> string" where
  "remove_all p s =
     (if s = [] then []
      else (case p s of
              Some (m, rest) \<Rightarrow> remove_all p (advance s rest)
            | None \<Rightarrow> hd s # remove_all p (tl s)))"
  by pat_completeness auto
termination
  by (relation "measure (\<lambda>(p, s). length s)") (auto simp: advance_def)

declare remove_all.simps [simp del]

subsection \<open>\<open>parse_text_tool_calls\<close>\<close>

text \<open>
  \<open>json.loads(match[1])\<close> with \<open>except json.JSONDecodeError: args = {}\<close>. A payload starts
  with a brace, so what it parses to is a dict.
\<close>

definition arguments_of :: "string \<Rightarrow> pydict" where
  "arguments_of payload = (case json_loads payload of Some (JObj d) \<Rightarrow> d | _ \<Rightarrow> [])"

text \<open>
  The matches of the three patterns, in the order of the loop, each turned into a
  \<open>ToolCall\<close>. The id of the \<open>k\<close>-th call is \<open>call_\<close> followed by eight hexadecimal digits
  of a fresh UUID, given by \<open>uuid_hex k\<close>.
\<close>

definition text_matches :: "string \<Rightarrow> (string \<times> string) list" where
  "text_matches content = findall pattern1 content @ findall pattern2 content @ findall pattern3 content"

definition make_tool_call :: "(nat \<Rightarrow> string) \<Rightarrow> nat \<times> (string \<times> string) \<Rightarrow> ToolCall" where
  "make_tool_call uuid_hex km =
     \<lparr>tc_id = ''call_'' @ uuid_hex (fst km), tc_name = fst (snd km),
      tc_arguments = arguments_of (snd (snd km))\<rparr>"

definition parse_text_tool_calls :: "(nat \<Rightarrow> string) \<Rightarrow> string \<Rightarrow> string \<times> ToolCall list" where
  "parse_text_tool_calls uuid_hex content =
     (strip (remove_all markup content),
      map (make_tool_call uuid_hex) (enumerate 0 (text_matches content)))"

subsection \<open>\<open>clean_response_for_speech\<close>\<close>

text \<open>
  \<open><function[^>]*>.*?(?:</function>|$)\<close> with \<open>re.DOTALL\<close>: after the tag, the shortest
  text up to a closing tag or to the end (\<open>$\<close> also matches before a final newline).
\<close>

fun to_close :: "string \<Rightarrow> string" where
  "to_close [] = []"
| "to_close (c # cs) =
     (if prefix ''</function>'' (c # cs) then drop 11 (c # cs)
      else if c # cs = [CHR 0x0A] then c # cs
      else to_close cs)"

definition function_tag :: pattern where
  "function_tag s =
     (if prefix ''<function'' s \<and> dropWhile (\<lambda>x. x \<noteq> CHR ''>'') (drop 9 s) \<noteq> []
      then Some (([], []), to_close (tl (dropWhile (\<lambda>x. x \<noteq> CHR ''>'') (drop 9 s))))
      else None)"

text \<open>\<open>\{"[^"]+":.*?\}\<close>: the dot does not match a newline.\<close>

definition json_args :: pattern where
  "json_args s =
     (if \<not> prefix [CHR ''{'', CHR 0x22] s then None
      else
        (let key = takeWhile (\<lambda>x. x \<noteq> CHR 0x22) (drop 2 s);
             r = dropWhile (\<lambda>x. x \<noteq> CHR 0x22) (drop 2 s)
         in if key = [] \<or> \<not> prefix [CHR 0x22, CHR '':''] r then None
            else
              (let body = takeWhile (\<lambda>x. x \<noteq> CHR ''}'') (drop 2 r);
                   r2 = dropWhile (\<lambda>x. x \<noteq> CHR ''}'') (drop 2 r)
               in if r2 = [] \<or> CHR 0x0A \<in> set body then None
                  else Some (([], []), tl r2))))"

text \<open>\<open>re.sub(r'\s+', ' ', content)\<close>\<close>

function collapse_spaces :: "string \<Rightarrow> string" where
  "collapse_spaces s =
     (if s = [] then []
      else if is_space (hd s) then CHR '' '' # collapse_spaces (dropWhile is_space (tl s))
      else hd s # collapse_spaces (tl s))"
  by pat_completeness auto
termination
proof (relation "measure length", goal_cases)
  case 1
  show ?case by simp
next
  case (2 s)
  have "length (dropWhile is_space (tl s)) \<le> length (tl s)" by (rule length_dropWhile_le)
  with 2 show ?case by (cases s) auto
next
  case (3 s)
  then show ?case by (cases s) auto
qed

declare collapse_spaces.simps [simp del]

definition clean_response_for_speech :: "string \<Rightarrow> string" where
  "clean_response_for_speech content =
     strip (collapse_spaces (remove_all json_args (remove_all function_tag content)))"

subsection \<open>The loop of \<open>chat_completions\<close>\<close>

definition PROXY_MAX_TOOL_ITERATIONS :: nat where
  "PROXY_MAX_TOOL_ITERATIONS = 5"

text \<open>
  The tool calls to execute and the content: the calls of the response, or, when there
  are none, an executor exists and the content holds \<open><function=\<close>, the calls parsed
  from the text (if any) with the cleaned content.
\<close>

definition tool_calls_to_execute ::
  "(nat \<Rightarrow> string) \<Rightarrow> bool \<Rightarrow> LLMResponse \<Rightarrow> ToolCall list \<times> string" where
  "tool_calls_to_execute uuid_hex has_executor llm_response =
     (let response_content = or_else (resp_content llm_response) []
      in if resp_tool_calls llm_response = [] \<and> has_executor
            \<and> contains ''<function='' response_content
         then (let parsed = parse_text_tool_calls uuid_hex response_content
               in if snd parsed \<noteq> [] then (snd parsed, fst parsed)
                  else ([], response_content))
         else (resp_tool_calls llm_response, response_content))"

text \<open>One tool call of the proxy: the execution and the tool message appended to the list.\<close>

definition proxy_tool_call :: "env \<Rightarrow> LLMMessage list \<times> state \<Rightarrow> ToolCall \<Rightarrow> LLMMessage list \<times> state" where
  "proxy_tool_call E acc tool_call =
     (let res = execute E (snd acc) (tc_name tool_call) (tc_arguments tool_call)
      in (fst acc @ [\<lparr>lm_role = TOOL, lm_content = json_dumps E (JObj (fst res)),
                       lm_name = Some (tc_name tool_call),
                       lm_tool_call_id = Some (tc_id tool_call), lm_tool_calls = []\<rparr>],
          snd res))"

definition proxy_trouble :: string where
  "proxy_trouble =
     ''I'' @ [CHR 0x27] @ ''m sorry, I had trouble processing that. Could you please try again?''"

text \<open>
  \<open>while iteration < MAX_TOOL_ITERATIONS\<close> of the proxy, from the messages of the
  request. \<open>has_executor\<close> tells whether a user id was found in the system message, in
  which case the state is the one of the executor made for it. The ids of the calls parsed
  in iteration \<open>i\<close> come from \<open>uuid_hex i\<close>. The result is \<open>final_response\<close>, the messages
  and the state; \<open>final_response\<close> is still empty when the loop ends by its bound.
\<close>

function proxy_loop ::
  "services \<Rightarrow> (nat \<Rightarrow> nat \<Rightarrow> string) \<Rightarrow> bool \<Rightarrow> nat \<Rightarrow> LLMMessage list \<Rightarrow> state
     \<Rightarrow> string \<times> LLMMessage list \<times> state" where
  "proxy_loop V uuid_hex has_executor iteration llm_messages st =
     (if iteration < PROXY_MAX_TOOL_ITERATIONS then
        (case (if real_provider_ok V then real_generate V (iteration + 1) llm_messages
               else mock_generate V (iteration + 1) llm_messages) of
           Inl e \<Rightarrow> (proxy_trouble, llm_messages, st)
         | Inr llm_response \<Rightarrow>
             (let tc = tool_calls_to_execute (uuid_hex (iteration + 1)) has_executor llm_response
              in if fst tc \<noteq> [] \<and> has_executor then
                   (let r = foldl (proxy_tool_call (tool_env V))
                                  (llm_messages @
                                     [\<lparr>lm_role = ASSISTANT, lm_content = snd tc, lm_name = None,
                                       lm_tool_call_id = None, lm_tool_calls = fst tc\<rparr>], st)
                                  (fst tc)
                    in proxy_loop V uuid_hex has_executor (iteration + 1) (fst r) (snd r))
                 else
                   (clean_response_for_speech
                      (if snd tc = [] then ''I'' @ [CHR 0x27] @ ''m sorry, I couldn'' @ [CHR 0x27]
                                            @ ''t generate a response.''
                       else snd tc),
                    llm_messages, st)))
      else ([], llm_messages, st))"
  by pat_completeness auto
termination
  by (relation "measure (\<lambda>(V, uuid_hex, has_executor, iteration, llm_messages, st).
                           PROXY_MAX_TOOL_ITERATIONS - iteration)") auto

declare proxy_loop.simps [simp del]

section \<open>Reading results\<close>

text \<open>The strings of a list value, and the list of strings stored under a key of a result.\<close>

fun str_items :: "json list \<Rightarrow> string list" where
  "str_items [] = []"
| "str_items (JStr s # vs) = s # str_items vs"
| "str_items (v # vs) = str_items vs"

definition slots_of :: "pydict \<Rightarrow> string \<Rightarrow> string list" where
  "slots_of r k = (case map_of r k of Some (JArr xs) \<Rightarrow> str_items xs | _ \<Rightarrow> [])"

text \<open>An environment and a state for the examples: the clock reads 3 November 2026, 10:00.\<close>

definition example_env :: env where
  "example_env =
     \<lparr>now = \<lparr>dt_year = 2026, dt_month = 11, dt_day = 3, dt_tod = 36000000000\<rparr>,
      strptime = (\<lambda>s fmt. None),
      db_now = ''2026-11-03T10:00:00+00:00'',
      float_is_zero = (\<lambda>s. False),
      float_int = (\<lambda>s. Inl (OverflowError ''cannot convert float infinity to integer'')),
      py_repr = (\<lambda>v. [])\<rparr>"

definition example_state :: state where
  "example_state =
     \<lparr>self_session_id = ''sess_0123456789ab'',
      self_user_id = Some 7,
      self_user_name = Some ''Ann'',
      appointments = [],
      next_appointment_id = 1,
      users = [\<lparr>usr_id = 7, usr_contact_number = ''5550100200'', usr_name = Some ''Ann''\<rparr>],
      redis_sessions = (\<lambda>k. None)\<rparr>"

text \<open>
  A store with one scheduled appointment at 12:30, a time outside the slot catalog, as
  \<open>POST /appointments\<close> of \<open>app/api/appointments.py\<close> creates it.
\<close>

definition off_catalog_state :: state where
  "off_catalog_state =
     example_state\<lparr>appointments :=
        [\<lparr>appt_id = 1, appt_user_id = 7, appointment_date = ''2026-11-04'',
          appointment_time = ''12:30'', appt_status = ''scheduled'', appt_purpose = JNull,
          appt_created_at = ''2026-11-03T09:00:00+00:00''\<rparr>],
        next_appointment_id := 2\<rparr>"

text \<open>A result dict carries the key \<open>success\<close> with a boolean.\<close>

definition has_success_flag :: "pydict \<Rightarrow> bool" where
  "has_success_flag r = (map_of r ''success'' = Some (JBool True) \<or> map_of r ''success'' = Some (JBool False))"

text \<open>What \<open>execute\<close> hands back for a method that returned or raised.\<close>

definition returns_flag :: "tool_result \<Rightarrow> bool" where
  "returns_flag res = (case fst res of Inr r \<Rightarrow> has_success_flag r | Inl e \<Rightarrow> True)"


text \<open>
  A sequence of \<open>add_message\<close> calls on one session, each given by its arguments, and the
  message each call stores.
\<close>

type_synonym add_message_args = "string \<times> string \<times> ToolCall list \<times> string option \<times> string option"

definition add_message_with :: "conversation_store \<Rightarrow> string \<Rightarrow> add_message_args \<Rightarrow> conversation_store" where
  "add_message_with C session_id a =
     (case a of (role, content, tool_calls, tool_call_id, name) \<Rightarrow>
        add_message C session_id role content tool_calls tool_call_id name)"

definition message_of :: "add_message_args \<Rightarrow> message" where
  "message_of a =
     (case a of (role, content, tool_calls, tool_call_id, name) \<Rightarrow>
        new_message role content tool_calls tool_call_id name)"

fun add_all :: "conversation_store \<Rightarrow> string \<Rightarrow> add_message_args list \<Rightarrow> conversation_store" where
  "add_all C session_id [] = C"
| "add_all C session_id (a # as) = add_all (add_message_with C session_id a) session_id as"

definition system_message :: "string \<Rightarrow> message" where
  "system_message system_prompt =
     \<lparr>msg_role = ''system'', msg_content = system_prompt, msg_tool_calls = [],
      msg_tool_call_id = None, msg_name = None\<rparr>"





section \<open>The booking invariant\<close>

definition is_scheduled :: "appointment \<Rightarrow> bool" where
  "is_scheduled a = (appt_status a = ''scheduled'')"

definition slot_of :: "appointment \<Rightarrow> string \<times> string" where
  "slot_of a = (appointment_date a, appointment_time a)"

definition user_slot_of :: "appointment \<Rightarrow> int \<times> string \<times> string" where
  "user_slot_of a = (appt_user_id a, appointment_date a, appointment_time a)"

text \<open>At most one scheduled appointment for any (date, time) pair.\<close>

definition no_double_booking :: "state \<Rightarrow> bool" where
  "no_double_booking st = distinct (map slot_of (filter is_scheduled (appointments st)))"

text \<open>At most one scheduled appointment for any (user, date, time) triple.\<close>

definition no_user_double_booking :: "state \<Rightarrow> bool" where
  "no_user_double_booking st = distinct (map user_slot_of (filter is_scheduled (appointments st)))"

text \<open>The primary key: ids are unique and below the counter.\<close>

definition ids_fresh :: "state \<Rightarrow> bool" where
  "ids_fresh st =
     (distinct (map appt_id (appointments st)) \<and>
      (\<forall>a \<in> set (appointments st). appt_id a < next_appointment_id st))"

definition store_ok :: "state \<Rightarrow> bool" where
  "store_ok st = (no_double_booking st \<and> ids_fresh st)"

text \<open>
  The states the tool executor can produce: from an empty appointment table, by any call
  of \<open>execute\<close> under any clock, and by constructing an executor for another session or
  user over the same stores.
\<close>

inductive reachable :: "state \<Rightarrow> bool" where
  empty: "appointments st = [] \<Longrightarrow> reachable st"
| call: "reachable st \<Longrightarrow> reachable (snd (execute E st tool_name arguments))"
| executor: "reachable st \<Longrightarrow> reachable (ToolExecutor_init st sid uid uname)"

section \<open>Properties of the tool executor\<close>

lemma str_items_JStr [simp]: "str_items (map JStr xs) = xs"
  by (induction xs) auto

subsection \<open>The slots returned by \<open>fetch_slots\<close>\<close>

text \<open>
  Claim C4, as the code has it. Whenever the date parses, \<open>fetch_slots\<close> succeeds and leaves
  the state alone; \<open>booked_slots\<close> are the times of the scheduled appointments of that date;
  \<open>available_slots\<close> and \<open>booked_slots\<close> are disjoint; \<open>available_slots\<close> is the catalog
  without the booked times, so the two lists together cover the catalog, and they are
  exactly the catalog when every booked time is a catalog time. On a day whose catalog is
  fully booked the call succeeds with no available slot.
\<close>

theorem fetch_slots_partition:
  assumes "parse_date E (dict_get args ''date'' (JStr [])) = Inr date"
  shows "\<exists>r. execute E st ''fetch_slots'' args = (r, st) \<and>
           map_of r ''success'' = Some (JBool True) \<and>
           map_of r ''date'' = Some (JStr (strftime_ymd date)) \<and>
           (let available = slots_of r ''available_slots''; booked = slots_of r ''booked_slots'' in
              booked = get_booked_slots_from_db st (strftime_ymd date) None \<and>
              set available \<inter> set booked = {} \<and>
              set available = set AVAILABLE_SLOTS - set booked \<and>
              set AVAILABLE_SLOTS \<subseteq> set available \<union> set booked \<and>
              (set booked \<subseteq> set AVAILABLE_SLOTS \<longrightarrow> set available \<union> set booked = set AVAILABLE_SLOTS) \<and>
              (set AVAILABLE_SLOTS \<subseteq> set booked \<longrightarrow> available = []))"
proof -
  let ?d = "strftime_ymd date"
  let ?booked = "get_booked_slots_from_db st ?d None"
  let ?avail = "filter (\<lambda>slot. slot \<notin> set ?booked) AVAILABLE_SLOTS"
  let ?r = "[(''success'', JBool True), (''date'', JStr ?d), (''date_display'', JStr (strftime_display date)),
             (''available_slots'', JArr (map JStr ?avail)), (''booked_slots'', JArr (map JStr ?booked)),
             (''message'', JStr (''Found '' @ str_int (int (length ?avail)) @ '' available slots on '' @ ?d))]"
  have ex: "execute E st ''fetch_slots'' args = (?r, st)"
    using assms by (simp add: execute_def tool_method_def execute_fetch_slots_def Let_def)
  have a: "slots_of ?r ''available_slots'' = ?avail" by (simp add: slots_of_def)
  have b: "slots_of ?r ''booked_slots'' = ?booked" by (simp add: slots_of_def)
  have s: "map_of ?r ''success'' = Some (JBool True)" "map_of ?r ''date'' = Some (JStr ?d)" by simp_all
  have p: "set ?avail \<inter> set ?booked = {}" "set ?avail = set AVAILABLE_SLOTS - set ?booked"
          "set AVAILABLE_SLOTS \<subseteq> set ?avail \<union> set ?booked"
          "set ?booked \<subseteq> set AVAILABLE_SLOTS \<longrightarrow> set ?avail \<union> set ?booked = set AVAILABLE_SLOTS"
          "set AVAILABLE_SLOTS \<subseteq> set ?booked \<longrightarrow> ?avail = []"
    by (auto simp: filter_empty_conv)
  show ?thesis
    apply (rule exI[of _ ?r])
    unfolding Let_def a b using ex s p by blast
qed

lemma parse_tomorrow_example:
  "parse_date example_env (dict_get [(''date'', JStr ''tomorrow'')] ''date'' (JStr [])) =
     Inr \<lparr>dt_year = 2026, dt_month = 11, dt_day = 4, dt_tod = 36000000000\<rparr>"
  by code_simp

theorem fetch_slots_partition_witness:
  "parse_date example_env (dict_get [(''date'', JStr ''tomorrow'')] ''date'' (JStr [])) =
     Inr \<lparr>dt_year = 2026, dt_month = 11, dt_day = 4, dt_tod = 36000000000\<rparr> \<and>
   (\<exists>r. execute example_env off_catalog_state ''fetch_slots'' [(''date'', JStr ''tomorrow'')]
           = (r, off_catalog_state) \<and>
         map_of r ''success'' = Some (JBool True) \<and>
         set (slots_of r ''available_slots'') \<inter> set (slots_of r ''booked_slots'') = {} \<and>
         set (slots_of r ''available_slots'') = set AVAILABLE_SLOTS - set (slots_of r ''booked_slots''))"
  using parse_tomorrow_example
        fetch_slots_partition [OF parse_tomorrow_example, of off_catalog_state]
  unfolding Let_def by blast

text \<open>
  Claim C4 as the specification words it fails: with a scheduled appointment at 12:30,
  \<open>booked_slots\<close> holds a time outside the catalog and the union is larger than the catalog.
\<close>

theorem fetch_slots_union_counterexample:
  "(let r = fst (execute example_env off_catalog_state ''fetch_slots'' [(''date'', JStr ''tomorrow'')])
    in map_of r ''success'' = Some (JBool True) \<and>
       set (slots_of r ''available_slots'') \<union> set (slots_of r ''booked_slots'') \<noteq> set AVAILABLE_SLOTS)"
proof -
  let ?r = "fst (execute example_env off_catalog_state ''fetch_slots'' [(''date'', JStr ''tomorrow'')])"
  have b: "slots_of ?r ''booked_slots'' = [''12:30'']" by code_simp
  have s: "map_of ?r ''success'' = Some (JBool True)" by code_simp
  have n: "''12:30'' \<notin> set AVAILABLE_SLOTS" by (simp add: AVAILABLE_SLOTS_def)
  have "''12:30'' \<in> set (slots_of ?r ''available_slots'') \<union> set (slots_of ?r ''booked_slots'')"
    using b by simp
  with n have "set (slots_of ?r ''available_slots'') \<union> set (slots_of ?r ''booked_slots'') \<noteq> set AVAILABLE_SLOTS"
    by metis
  with s show ?thesis unfolding Let_def by simp
qed

subsection \<open>Booking\<close>

lemma set_insert_by [simp]: "set (insert_by key x xs) = insert x (set xs)"
  by (induction xs) auto

lemma set_sort_by [simp]: "set (sort_by key xs) = set xs"
  by (induction xs) auto

lemma user_holds_slot_booked:
  assumes "user_holds_slot E st uid d t"
  shows "t \<in> set (get_booked_slots_from_db st d None)"
  using assms
  by (auto simp: user_holds_slot_def get_user_appointments_from_db_def user_rows_def
                 appointment_dict_def dict_get_def get_booked_slots_from_db_def)

lemma parse_date_tomorrow: "parse_date E (JStr ''tomorrow'') = Inr (add_days 1 (now E))"
proof -
  have "strip (lower ''tomorrow'') = ''tomorrow''" by code_simp
  then show ?thesis by (simp add: parse_date_def parse_date_str_def Let_def)
qed

lemma normalize_time_2pm: "normalize_time (JStr ''2pm'') = Inr ''14:00''"
  by code_simp

lemma authenticated_user_appointments [simp]:
  "authenticated_user (st\<lparr>appointments := xs, next_appointment_id := n\<rparr>) = authenticated_user st"
  by (simp add: authenticated_user_def get_current_user_id_def get_metadata_user_id_def
           split: option.splits)

lemma booked_after_insert:
  assumes "insert_appointment E st uid d t p = (k, st1)"
  shows "get_booked_slots_from_db st1 d None = get_booked_slots_from_db st d None @ [t]"
  using assms by (auto simp: insert_appointment_def Let_def get_booked_slots_from_db_def)

text \<open>
  Claim C10. For an authenticated user, when no scheduled appointment holds 14:00 on
  tomorrow's date, \<open>book_appointment\<close> with \<open>{date: "tomorrow", time: "2pm"}\<close> succeeds,
  its result carries the time \<open>14:00\<close> and tomorrow's date as \<open>YYYY-MM-DD\<close>, and the same
  call repeated on the resulting state fails with the message that the slot is already
  booked and changes nothing.
\<close>

theorem book_tomorrow_2pm:
  assumes auth: "authenticated_user st = Some uid"
      and free: "''14:00'' \<notin> set (get_booked_slots_from_db st (strftime_ymd (add_days 1 (now E))) None)"
  shows "\<exists>r1 st1 r2.
           execute E st ''book_appointment'' [(''date'', JStr ''tomorrow''), (''time'', JStr ''2pm'')] = (r1, st1) \<and>
           map_of r1 ''success'' = Some (JBool True) \<and>
           map_of r1 ''time'' = Some (JStr ''14:00'') \<and>
           map_of r1 ''date'' = Some (JStr (strftime_ymd (add_days 1 (now E)))) \<and>
           execute E st1 ''book_appointment'' [(''date'', JStr ''tomorrow''), (''time'', JStr ''2pm'')] = (r2, st1) \<and>
           r2 = success_false (''Sorry, 14:00 on '' @ strftime_ymd (add_days 1 (now E))
                               @ '' is already booked. Please choose another slot.'')"
proof -
  let ?args = "[(''date'', JStr ''tomorrow''), (''time'', JStr ''2pm'')]"
  let ?date = "add_days 1 (now E)"
  let ?d = "strftime_ymd ?date"
  have pd: "parse_date E (dict_get ?args ''date'' (JStr [])) = Inr ?date"
    by (simp add: dict_get_def parse_date_tomorrow)
  have nt: "normalize_time (dict_get ?args ''time'' (JStr [])) = Inr ''14:00''"
    by (simp add: dict_get_def normalize_time_2pm)
  have slot: "''14:00'' \<in> set AVAILABLE_SLOTS" by (simp add: AVAILABLE_SLOTS_def)
  have nh: "\<not> user_holds_slot E st uid ?d ''14:00''"
    using free user_holds_slot_booked by blast
  obtain k st1 where ins: "insert_appointment E st uid ?d ''14:00'' (dict_get ?args ''purpose'' (JStr ''General appointment'')) = (k, st1)"
    by force
  have b1: "''14:00'' \<in> set (get_booked_slots_from_db st1 ?d None)"
    using booked_after_insert [OF ins] by simp
  have a1: "authenticated_user st1 = Some uid"
    using ins auth by (auto simp: insert_appointment_def Let_def)
  let ?r1 = "[(''success'', JBool True), (''appointment_id'', JStr (str_int k)), (''date'', JStr ?d),
              (''date_display'', JStr (strftime_display ?date)), (''time'', JStr ''14:00''),
              (''purpose'', dict_get ?args ''purpose'' (JStr ''General appointment'')),
              (''message'', JStr (''Appointment booked for '' @ strftime_day_month ?date @ '' at '' @ ''14:00''))]"
  have e1: "execute E st ''book_appointment'' ?args = (?r1, st1)"
    using auth pd nt slot free nh ins
    by (simp add: execute_def tool_method_def execute_book_appointment_def Let_def)
  have e2: "execute E st1 ''book_appointment'' ?args =
        (success_false (''Sorry, 14:00 on '' @ ?d @ '' is already booked. Please choose another slot.''), st1)"
    using a1 pd nt slot b1
    by (simp add: execute_def tool_method_def execute_book_appointment_def Let_def)
  show ?thesis
    using e1 e2 by simp
qed

theorem book_tomorrow_2pm_witness:
  "authenticated_user example_state = Some 7 \<and>
   ''14:00'' \<notin> set (get_booked_slots_from_db example_state
                        (strftime_ymd (add_days 1 (now example_env))) None) \<and>
   (\<exists>r1 st1 r2.
      execute example_env example_state ''book_appointment''
        [(''date'', JStr ''tomorrow''), (''time'', JStr ''2pm'')] = (r1, st1) \<and>
      map_of r1 ''success'' = Some (JBool True) \<and>
      map_of r1 ''time'' = Some (JStr ''14:00'') \<and>
      map_of r1 ''date'' = Some (JStr ''2026-11-04'') \<and>
      execute example_env st1 ''book_appointment''
        [(''date'', JStr ''tomorrow''), (''time'', JStr ''2pm'')] = (r2, st1) \<and>
      r2 = success_false ''Sorry, 14:00 on 2026-11-04 is already booked. Please choose another slot.'')"
proof -
  have a: "authenticated_user example_state = Some 7" by code_simp
  have f: "''14:00'' \<notin> set (get_booked_slots_from_db example_state
                               (strftime_ymd (add_days 1 (now example_env))) None)"
    by code_simp
  have d: "strftime_ymd (add_days 1 (now example_env)) = ''2026-11-04''" by code_simp
  show ?thesis
    using a f book_tomorrow_2pm [OF a f] unfolding d by simp
qed

subsection \<open>Cancelling\<close>

lemma authenticated_user_update [simp]:
  "authenticated_user (update_appointment st k f) = authenticated_user st"
  by (simp add: update_appointment_def authenticated_user_def get_current_user_id_def
                get_metadata_user_id_def split: option.splits)













subsection \<open>\<open>execute\<close> always returns a result\<close>

lemma flag_false [simp]: "has_success_flag (success_false msg)"
  by (simp add: has_success_flag_def success_false_def)

lemma flag_cons [simp]: "has_success_flag ((''success'', JBool b) # r)"
  by (simp add: has_success_flag_def)

lemma flag_end: "returns_flag (execute_end_conversation E st args)"
  by (simp add: returns_flag_def execute_end_conversation_def)

lemma flag_fetch: "returns_flag (execute_fetch_slots E st args)"
  by (simp add: returns_flag_def execute_fetch_slots_def Let_def split: sum.split exn.split)

lemma flag_identify: "returns_flag (execute_identify_user E st args)"
  by (simp add: returns_flag_def execute_identify_user_def Let_def split: sum.split option.split)

lemma flag_retrieve: "returns_flag (execute_retrieve_appointments E st args)"
  by (simp add: returns_flag_def execute_retrieve_appointments_def Let_def not_authenticated_def split: option.split)

lemma flag_cancel: "returns_flag (execute_cancel_appointment E st args)"
  by (simp add: returns_flag_def execute_cancel_appointment_def Let_def not_authenticated_def
        invalid_appointment_id_def appointment_not_found_def
        split: sum.split exn.split option.split)


lemma flag_book: "returns_flag (execute_book_appointment E st args)"
  by (simp add: returns_flag_def execute_book_appointment_def Let_def not_authenticated_def
        insert_appointment_def
        split: sum.split exn.split option.split)

lemma flag_target_date:
  "modify_target_date E a v = Inl r \<Longrightarrow> (case r of Inr d \<Rightarrow> has_success_flag d | Inl e \<Rightarrow> True)"
  by (simp add: modify_target_date_def split: if_splits sum.splits exn.splits) auto

lemma flag_target_time:
  "modify_target_time E a v = Inl r \<Longrightarrow> (case r of Inr d \<Rightarrow> has_success_flag d | Inl e \<Rightarrow> True)"
  by (simp add: modify_target_time_def split: if_splits sum.splits) auto


lemma flag_modify: "returns_flag (execute_modify_appointment E st args)"
proof -
  have d: "\<And>a v r. modify_target_date E a v = Inl (Inr r) \<Longrightarrow> has_success_flag r"
    using flag_target_date by force
  have t: "\<And>a v r. modify_target_time E a v = Inl (Inr r) \<Longrightarrow> has_success_flag r"
    using flag_target_time by force
  show ?thesis
    using d t
    by (simp add: returns_flag_def execute_modify_appointment_def Let_def not_authenticated_def
          invalid_appointment_id_def appointment_not_found_def
          split: sum.split exn.split option.split) blast
qed

lemma tool_method_cases:
  assumes "tool_method tool_name = Some method"
  shows "method \<in> {execute_identify_user, execute_fetch_slots, execute_book_appointment,
                     execute_retrieve_appointments, execute_cancel_appointment,
                     execute_modify_appointment, execute_end_conversation}"
  using assms by (simp add: tool_method_def split: if_splits)

lemma flag_method:
  assumes "tool_method tool_name = Some method"
  shows "returns_flag (method E st args)"
  using tool_method_cases [OF assms]
        flag_identify flag_fetch flag_book flag_retrieve flag_cancel flag_modify flag_end
  by auto

text \<open>
  Claim C6. For every tool name and every argument map, \<open>execute\<close> returns a result dict
  with a boolean \<open>success\<close>; a name that is no tool gives the failure
  \<open>Unknown tool: <name>\<close> and leaves the state alone; an exception raised by the tool
  method is turned into the failure carrying \<open>str(e)\<close>. The argument map holds JSON values,
  as every caller passes them, so the logging call \<open>json.dumps(arguments)\<close> ahead of the
  \<open>try\<close> block cannot raise.
\<close>

theorem execute_total:
  "has_success_flag (fst (execute E st tool_name arguments)) \<and>
   (tool_method tool_name = None \<longrightarrow>
      execute E st tool_name arguments = (success_false (''Unknown tool: '' @ tool_name), st)) \<and>
   (\<forall>method e st'. tool_method tool_name = Some method \<and> method E st arguments = (Inl e, st') \<longrightarrow>
      execute E st tool_name arguments = (success_false (exn_str e), st'))"
proof (cases "tool_method tool_name")
  case None
  then show ?thesis by (simp add: execute_def)
next
  case (Some meth)
  obtain res st' where m: "meth E st arguments = (res, st')" by force
  have f: "returns_flag (res, st')" using flag_method [OF Some, of E st arguments] m by simp
  have "has_success_flag (fst (execute E st tool_name arguments))"
  proof (cases res)
    case (Inl e)
    then show ?thesis using Some m by (simp add: execute_def)
  next
    case (Inr r)
    then show ?thesis using Some m f by (simp add: execute_def returns_flag_def)
  qed
  then show ?thesis
    using Some by (simp add: execute_def)
qed


theorem execute_total_witness:
  "tool_method ''reschedule'' = None \<and>
   execute example_env example_state ''reschedule'' []
     = (success_false ''Unknown tool: reschedule'', example_state) \<and>
   tool_method ''fetch_slots'' = Some execute_fetch_slots \<and>
   execute_fetch_slots example_env example_state [(''date'', JInt 5)]
     = (Inl (AttributeError ([CHR 0x27] @ ''int'' @ [CHR 0x27] @ '' object has no attribute ''
                             @ [CHR 0x27] @ ''lower'' @ [CHR 0x27])), example_state) \<and>
   execute example_env example_state ''fetch_slots'' [(''date'', JInt 5)]
     = (success_false ([CHR 0x27] @ ''int'' @ [CHR 0x27] @ '' object has no attribute ''
                       @ [CHR 0x27] @ ''lower'' @ [CHR 0x27]), example_state)"
proof -
  let ?e = "AttributeError ([CHR 0x27] @ ''int'' @ [CHR 0x27] @ '' object has no attribute ''
                            @ [CHR 0x27] @ ''lower'' @ [CHR 0x27])"
  have n: "tool_method ''reschedule'' = None" by (simp add: tool_method_def)
  have m: "tool_method ''fetch_slots'' = Some execute_fetch_slots" by (simp add: tool_method_def)
  have r: "execute_fetch_slots example_env example_state [(''date'', JInt 5)] = (Inl ?e, example_state)"
    by (simp add: execute_fetch_slots_def parse_date_def dict_get_def)
  have u: "execute example_env example_state ''reschedule'' []
             = (success_false (''Unknown tool: '' @ ''reschedule''), example_state)"
    using n execute_total [of example_env example_state "''reschedule''" "[]"] by blast
  have x: "execute example_env example_state ''fetch_slots'' [(''date'', JInt 5)]
             = (success_false (exn_str ?e), example_state)"
    using m r execute_total [of example_env example_state "''fetch_slots''" "[(''date'', JInt 5)]"]
    by blast
  show ?thesis using n m r u x by simp
qed

subsection \<open>No double booking\<close>

lemma distinct_map_refine:
  assumes "distinct (map f xs)" and "\<And>x y. g x = g y \<Longrightarrow> f x = f y"
  shows "distinct (map g xs)"
  using assms unfolding distinct_map inj_on_def by blast

lemma distinct_map_filter_more:
  assumes "distinct (map f (filter P xs))"
  shows "distinct (map f (filter (\<lambda>a. P a \<and> Q a) xs))"
  using assms by (induction xs) (auto split: if_splits)

lemma distinct_map_move:
  assumes "distinct (map i xs)" and "distinct (map p (filter S xs))"
      and "\<forall>a \<in> set xs. S a \<and> i a \<noteq> k \<longrightarrow> p a \<noteq> v"
  shows "distinct (map (\<lambda>a. if i a = k then v else p a) (filter S xs))"
  using assms
proof (induction xs)
  case Nil
  then show ?case by simp
next
  case (Cons x xs)
  have d1: "distinct (map i xs)" and nx: "i x \<notin> i ` set xs" using Cons.prems(1) by auto
  have d2: "distinct (map p (filter S xs))" using Cons.prems(2) by (cases "S x") auto
  have h3: "\<forall>a \<in> set xs. S a \<and> i a \<noteq> k \<longrightarrow> p a \<noteq> v" using Cons.prems(3) by simp
  have IH: "distinct (map (\<lambda>a. if i a = k then v else p a) (filter S xs))"
    using Cons.IH [OF d1 d2 h3] .
  show ?case
  proof (cases "S x")
    case False
    then show ?thesis using IH by simp
  next
    case True
    have px: "p x \<notin> p ` set (filter S xs)" using Cons.prems(2) True by auto
    have "(if i x = k then v else p x) \<notin> (\<lambda>a. if i a = k then v else p a) ` set (filter S xs)"
    proof
      assume "(if i x = k then v else p x) \<in> (\<lambda>a. if i a = k then v else p a) ` set (filter S xs)"
      then obtain a where a: "a \<in> set xs" "S a"
        and e: "(if i x = k then v else p x) = (if i a = k then v else p a)" by auto
      have ia: "i a \<noteq> i x" using nx a(1) by (metis imageI)
      show False
      proof (cases "i x = k")
        case True
        then have "i a \<noteq> k" using ia by simp
        then have "p a \<noteq> v" using h3 a by blast
        then show False using e True \<open>i a \<noteq> k\<close> by simp
      next
        case False
        have pxv: "p x \<noteq> v" using Cons.prems(3) True False by simp
        show False
        proof (cases "i a = k")
          case True
          then show False using e False pxv by simp
        next
          case False
          then have "p x = p a" using e \<open>i x \<noteq> k\<close> by simp
          moreover have "a \<in> set (filter S xs)" using a by simp
          ultimately show False using px by (metis imageI)
        qed
      qed
    qed
    then show ?thesis using IH True by simp
  qed
qed


lemma store_ok_frame:
  assumes "appointments st' = appointments st" and "next_appointment_id st' = next_appointment_id st"
  shows "store_ok st' = store_ok st"
  using assms by (simp add: store_ok_def no_double_booking_def ids_fresh_def)

lemma map_id_update_any:
  assumes "\<And>a. appt_id (f a) = appt_id a"
  shows "map appt_id (map (\<lambda>a. if appt_id a = k then f a else a) xs) = map appt_id xs"
  using assms by (induction xs) simp_all

lemma ids_fresh_update:
  assumes "ids_fresh st" and "\<And>a. appt_id (f a) = appt_id a"
  shows "ids_fresh (update_appointment st k f)"
proof -
  let ?g = "\<lambda>a. if appt_id a = k then f a else a"
  have g: "\<And>a. appt_id (?g a) = appt_id a" using assms(2) by simp
  have m: "map appt_id (map ?g (appointments st)) = map appt_id (appointments st)"
    using map_id_update_any [OF assms(2)] by blast
  have b: "\<forall>a \<in> set (map ?g (appointments st)). appt_id a < next_appointment_id st"
  proof
    fix a assume "a \<in> set (map ?g (appointments st))"
    then obtain b where b: "b \<in> set (appointments st)" "a = ?g b" by auto
    have "appt_id a = appt_id b" unfolding b(2) by (rule g)
    then show "appt_id a < next_appointment_id st"
      using assms(1) b(1) unfolding ids_fresh_def by simp
  qed
  have d: "distinct (map appt_id (map ?g (appointments st)))"
    unfolding m using assms(1) unfolding ids_fresh_def by blast
  have ap: "appointments (update_appointment st k f) = map ?g (appointments st)"
    by (simp add: update_appointment_def)
  have nx: "next_appointment_id (update_appointment st k f) = next_appointment_id st"
    by (simp add: update_appointment_def)
  show ?thesis
    unfolding ids_fresh_def ap nx using d b by blast
qed

lemma slots_after_cancel:
  "map slot_of (filter is_scheduled
       (map (\<lambda>a. if appt_id a = k then a\<lparr>appt_status := ''cancelled''\<rparr> else a) xs))
   = map slot_of (filter (\<lambda>a. is_scheduled a \<and> appt_id a \<noteq> k) xs)"
  by (induction xs) (simp_all add: is_scheduled_def slot_of_def)

lemma store_ok_cancel:
  assumes "store_ok st"
  shows "store_ok (update_appointment st k (\<lambda>a. a\<lparr>appt_status := ''cancelled''\<rparr>))"
proof -
  let ?st' = "update_appointment st k (\<lambda>a. a\<lparr>appt_status := ''cancelled''\<rparr>)"
  have i0: "ids_fresh st" and n0: "no_double_booking st" using assms by (simp_all add: store_ok_def)
  have i: "ids_fresh ?st'"
    by (rule ids_fresh_update [OF i0]) simp
  have "distinct (map slot_of (filter is_scheduled (appointments st)))"
    using n0 by (simp add: no_double_booking_def)
  then have "distinct (map slot_of (filter (\<lambda>a. is_scheduled a \<and> appt_id a \<noteq> k) (appointments st)))"
    by (rule distinct_map_filter_more)
  then have "no_double_booking ?st'"
    by (simp add: no_double_booking_def update_appointment_def slots_after_cancel)
  then show ?thesis using i by (simp add: store_ok_def)
qed


lemma slots_after_move:
  "map slot_of (filter is_scheduled
       (map (\<lambda>a. if appt_id a = k then a\<lparr>appointment_date := td, appointment_time := tt\<rparr> else a) xs))
   = map (\<lambda>a. if appt_id a = k then (td, tt) else slot_of a) (filter is_scheduled xs)"
  by (induction xs) (simp_all add: is_scheduled_def slot_of_def)

lemma booked_excluding:
  assumes "tt \<notin> set (get_booked_slots_from_db st td (Some k))"
      and "a \<in> set (appointments st)" and "is_scheduled a" and "appt_id a \<noteq> k"
  shows "slot_of a \<noteq> (td, tt)"
proof
  assume e: "slot_of a = (td, tt)"
  have "a \<in> set (filter (\<lambda>a. appointment_date a = td \<and> appt_status a = ''scheduled'' \<and>
                              (k = 0 \<or> appt_id a \<noteq> k)) (appointments st))"
    using assms(2,3,4) e by (simp add: slot_of_def is_scheduled_def)
  then have "appointment_time a \<in> set (get_booked_slots_from_db st td (Some k))"
    unfolding get_booked_slots_from_db_def by (simp add: image_iff) blast
  moreover have "appointment_time a = tt" using e by (simp add: slot_of_def)
  ultimately show False using assms(1) by simp
qed

lemma store_ok_modify:
  assumes "store_ok st" and "tt \<notin> set (get_booked_slots_from_db st td (Some k))"
  shows "store_ok (update_appointment st k (\<lambda>a. a\<lparr>appointment_date := td, appointment_time := tt\<rparr>))"
proof -
  let ?st' = "update_appointment st k (\<lambda>a. a\<lparr>appointment_date := td, appointment_time := tt\<rparr>)"
  have i0: "ids_fresh st" and n0: "no_double_booking st" using assms(1) by (simp_all add: store_ok_def)
  have i: "ids_fresh ?st'"
    by (rule ids_fresh_update [OF i0]) simp
  have d1: "distinct (map appt_id (appointments st))" using i0 by (simp add: ids_fresh_def)
  have d2: "distinct (map slot_of (filter is_scheduled (appointments st)))"
    using n0 by (simp add: no_double_booking_def)
  have h3: "\<forall>a \<in> set (appointments st). is_scheduled a \<and> appt_id a \<noteq> k \<longrightarrow> slot_of a \<noteq> (td, tt)"
    using booked_excluding [OF assms(2)] by blast
  have "distinct (map (\<lambda>a. if appt_id a = k then (td, tt) else slot_of a)
                      (filter is_scheduled (appointments st)))"
    by (rule distinct_map_move [OF d1 d2 h3])
  then have "no_double_booking ?st'"
    by (simp add: no_double_booking_def update_appointment_def slots_after_move)
  then show ?thesis using i by (simp add: store_ok_def)
qed

lemma store_ok_insert:
  assumes "store_ok st" and "t \<notin> set (get_booked_slots_from_db st d None)"
      and "insert_appointment E st uid d t p = (k, st')"
  shows "store_ok st'"
proof -
  let ?new = "\<lparr>appt_id = next_appointment_id st, appt_user_id = uid, appointment_date = d,
               appointment_time = t, appt_status = ''scheduled'', appt_purpose = p,
               appt_created_at = db_now E\<rparr>"
  have i0: "ids_fresh st" and n0: "no_double_booking st" using assms(1) by (simp_all add: store_ok_def)
  have ap: "appointments st' = appointments st @ [?new]"
    and nx: "next_appointment_id st' = next_appointment_id st + 1"
    using assms(3) by (auto simp: insert_appointment_def Let_def)
  have fresh: "next_appointment_id st \<notin> appt_id ` set (appointments st)"
    using i0 unfolding ids_fresh_def by force
  have i: "ids_fresh st'"
    unfolding ids_fresh_def ap nx using i0 fresh unfolding ids_fresh_def by force
  have free: "(d, t) \<notin> slot_of ` set (filter is_scheduled (appointments st))"
  proof
    assume "(d, t) \<in> slot_of ` set (filter is_scheduled (appointments st))"
    then obtain a where a: "a \<in> set (appointments st)" "is_scheduled a" "slot_of a = (d, t)" by auto
    then have "a \<in> set (filter (\<lambda>a. appointment_date a = d \<and> appt_status a = ''scheduled'' \<and> True)
                                 (appointments st))"
      by (simp add: slot_of_def is_scheduled_def)
    then have "appointment_time a \<in> set (get_booked_slots_from_db st d None)"
      unfolding get_booked_slots_from_db_def by (simp add: image_iff) blast
    then show False using assms(2) a(3) by (simp add: slot_of_def)
  qed
  have "distinct (map slot_of (filter is_scheduled (appointments st)))"
    using n0 by (simp add: no_double_booking_def)
  then have "no_double_booking st'"
    unfolding no_double_booking_def ap using free
    by (simp add: is_scheduled_def slot_of_def)
  then show ?thesis using i by (simp add: store_ok_def)
qed


lemma frame_set_metadata_user_id:
  "appointments (set_metadata_user_id st u) = appointments st \<and>
   next_appointment_id (set_metadata_user_id st u) = next_appointment_id st"
  by (simp add: set_metadata_user_id_def split: option.split)

lemma frame_set_metadata_user_name:
  "appointments (set_metadata_user_name st n) = appointments st \<and>
   next_appointment_id (set_metadata_user_name st n) = next_appointment_id st"
  by (simp add: set_metadata_user_name_def split: option.split)

lemma store_ok_init:
  "store_ok (ToolExecutor_init st sid uid uname) = store_ok st"
  by (rule store_ok_frame)
     (simp_all add: ToolExecutor_init_def Let_def frame_set_metadata_user_id
        frame_set_metadata_user_name split: option.split)

lemma store_ok_identify:
  "store_ok (snd (execute_identify_user E st args)) = store_ok st"
  by (rule store_ok_frame)
     (simp_all add: execute_identify_user_def Let_def frame_set_metadata_user_id
        frame_set_metadata_user_name split: option.split sum.split)

lemma store_ok_fetch:
  "store_ok (snd (execute_fetch_slots E st args)) = store_ok st"
  by (rule store_ok_frame)
     (simp_all add: execute_fetch_slots_def Let_def split: sum.split exn.split)

lemma store_ok_retrieve:
  "store_ok (snd (execute_retrieve_appointments E st args)) = store_ok st"
  by (rule store_ok_frame)
     (simp_all add: execute_retrieve_appointments_def Let_def split: option.split)

lemma store_ok_end:
  "store_ok (snd (execute_end_conversation E st args)) = store_ok st"
  by (simp add: execute_end_conversation_def)

lemma cancel_state:
  "snd (execute_cancel_appointment E st args) = st \<or>
   (\<exists>k. snd (execute_cancel_appointment E st args)
          = update_appointment st k (\<lambda>a. a\<lparr>appt_status := ''cancelled''\<rparr>))"
  by (simp add: execute_cancel_appointment_def Let_def split: option.split sum.split exn.split)
     blast

lemma book_state:
  "snd (execute_book_appointment E st args) = st \<or>
   (\<exists>uid d t p. t \<notin> set (get_booked_slots_from_db st d None) \<and>
        snd (execute_book_appointment E st args) = snd (insert_appointment E st uid d t p))"
  by (simp add: execute_book_appointment_def Let_def split: option.split sum.split exn.split prod.split)
     (metis snd_conv)

lemma modify_state:
  "snd (execute_modify_appointment E st args) = st \<or>
   (\<exists>k td tt. tt \<notin> set (get_booked_slots_from_db st td (Some k)) \<and>
        snd (execute_modify_appointment E st args)
          = update_appointment st k (\<lambda>a. a\<lparr>appointment_date := td, appointment_time := tt\<rparr>))"
  by (simp add: execute_modify_appointment_def Let_def split: option.split sum.split exn.split)
     blast


lemma snd_execute:
  assumes "tool_method tool_name = Some method"
  shows "snd (execute E st tool_name arguments) = snd (method E st arguments)"
  using assms by (simp add: execute_def split: prod.split sum.split)

lemma execute_preserves_store_ok:
  assumes "store_ok st"
  shows "store_ok (snd (execute E st tool_name arguments))"
proof (cases "tool_method tool_name")
  case None
  then show ?thesis using assms by (simp add: execute_def)
next
  case (Some meth)
  have s: "snd (execute E st tool_name arguments) = snd (meth E st arguments)"
    by (rule snd_execute [OF Some])
  have m: "meth = execute_identify_user \<or> meth = execute_fetch_slots \<or>
           meth = execute_book_appointment \<or> meth = execute_retrieve_appointments \<or>
           meth = execute_cancel_appointment \<or> meth = execute_modify_appointment \<or>
           meth = execute_end_conversation"
    using Some by (simp add: tool_method_def split: if_splits)
  have book: "store_ok (snd (execute_book_appointment E st arguments))"
  proof -
    from book_state [of E st arguments] show ?thesis
    proof
      assume "snd (execute_book_appointment E st arguments) = st"
      then show ?thesis using assms by simp
    next
      assume "\<exists>uid d t p. t \<notin> set (get_booked_slots_from_db st d None) \<and>
                snd (execute_book_appointment E st arguments) = snd (insert_appointment E st uid d t p)"
      then obtain uid d t p where f: "t \<notin> set (get_booked_slots_from_db st d None)"
        and e: "snd (execute_book_appointment E st arguments) = snd (insert_appointment E st uid d t p)"
        by blast
      obtain k st' where i: "insert_appointment E st uid d t p = (k, st')" by force
      have "store_ok st'" by (rule store_ok_insert [OF assms f i])
      then show ?thesis using e i by simp
    qed
  qed
  have cancel: "store_ok (snd (execute_cancel_appointment E st arguments))"
    using cancel_state [of E st arguments] store_ok_cancel [OF assms] assms by metis
  have modify: "store_ok (snd (execute_modify_appointment E st arguments))"
    using modify_state [of E st arguments] store_ok_modify [OF assms] assms by metis
  show ?thesis
    unfolding s using m book cancel modify assms
      store_ok_identify [of E st arguments] store_ok_fetch [of E st arguments]
      store_ok_retrieve [of E st arguments] store_ok_end [of E st arguments]
    by metis
qed

lemma reachable_store_ok:
  assumes "reachable st"
  shows "store_ok st"
  using assms
proof (induction rule: reachable.induct)
  case (empty st)
  then show ?case by (simp add: store_ok_def no_double_booking_def ids_fresh_def)
next
  case (call st E tool_name arguments)
  then show ?case by (simp add: execute_preserves_store_ok)
next
  case (executor st sid uid uname)
  then show ?case by (simp add: store_ok_init)
qed

lemma user_slots_distinct:
  assumes "no_double_booking st"
  shows "no_user_double_booking st"
  unfolding no_user_double_booking_def
proof (rule distinct_map_refine)
  show "distinct (map slot_of (filter is_scheduled (appointments st)))"
    using assms by (simp add: no_double_booking_def)
next
  fix x y assume "user_slot_of x = user_slot_of y"
  then show "slot_of x = slot_of y" by (simp add: user_slot_of_def slot_of_def)
qed

text \<open>
  Claim C1. In every state the tool executor can reach, at most one scheduled appointment
  exists for any (date, time) pair and for any (user, date, time) triple, and a further
  \<open>book_appointment\<close> or \<open>modify_appointment\<close> call keeps it so. The lemmas above show how:
  \<open>book_appointment\<close> inserts only when the time is not among the scheduled times of that
  date (\<open>book_state\<close>), and \<open>modify_appointment\<close> moves a row only when the target time is
  not among the scheduled times of the target date once the row itself is left out
  (\<open>modify_state\<close>).
\<close>

theorem no_double_booking_reachable:
  assumes "reachable st"
  shows "no_double_booking st \<and> no_user_double_booking st \<and>
         no_double_booking (snd (execute E st ''book_appointment'' arguments)) \<and>
         no_double_booking (snd (execute E st ''modify_appointment'' arguments))"
proof -
  have a: "store_ok st" by (rule reachable_store_ok [OF assms])
  have b: "store_ok (snd (execute E st ''book_appointment'' arguments))"
    by (rule execute_preserves_store_ok [OF a])
  have c: "store_ok (snd (execute E st ''modify_appointment'' arguments))"
    by (rule execute_preserves_store_ok [OF a])
  show ?thesis
    using a b c user_slots_distinct by (simp add: store_ok_def)
qed


theorem no_double_booking_reachable_witness:
  "reachable (snd (execute example_env example_state ''book_appointment''
                     [(''date'', JStr ''tomorrow''), (''time'', JStr ''2pm'')])) \<and>
   no_double_booking (snd (execute example_env example_state ''book_appointment''
                     [(''date'', JStr ''tomorrow''), (''time'', JStr ''2pm'')])) \<and>
   no_user_double_booking (snd (execute example_env example_state ''book_appointment''
                     [(''date'', JStr ''tomorrow''), (''time'', JStr ''2pm'')]))"
proof -
  have "appointments example_state = []" by (simp add: example_state_def)
  then have "reachable example_state" by (rule reachable.empty)
  then have r: "reachable (snd (execute example_env example_state ''book_appointment''
                     [(''date'', JStr ''tomorrow''), (''time'', JStr ''2pm'')]))"
    by (rule reachable.call)
  show ?thesis
    using r no_double_booking_reachable [OF r] by blast
qed

section \<open>The conversation history\<close>

lemma ltrim_last_100: "ltrim xs (- 100) (- 1) = drop (length xs - 100) xs"
proof (cases "xs = []")
  case True
  then show ?thesis by (simp add: ltrim_def)
next
  case False
  then have pos: "0 < length xs" by simp
  have a: "nat (max 0 (int (length xs) + - 100)) = length xs - 100" by simp
  have b: "\<not> int (length xs) + - 1 < max 0 (int (length xs) + - 100)" using pos by (simp add: max_def)
  have c: "length xs - (length xs - 100) \<le> nat (int (length xs) + - 1 - max 0 (int (length xs) + - 100) + 1)"
    using pos by (simp add: max_def) 
  show ?thesis unfolding ltrim_def Let_def using a b c by simp
qed

lemma drop_last_100_append:
  "drop (length (drop (length xs - 100) xs @ zs) - 100) (drop (length xs - 100) xs @ zs)
   = drop (length (xs @ zs) - 100) (xs @ zs)"
proof (cases "length xs \<le> 100")
  case True
  then show ?thesis by simp
next
  case False
  then have l: "length (drop (length xs - 100) xs @ zs) - 100 = length zs" by simp
  have r: "length (xs @ zs) - 100 = length zs + (length xs - 100)" using False by simp
  have "drop (length zs) (drop (length xs - 100) xs @ zs) = drop (length zs) (drop (length xs - 100) (xs @ zs))"
    by simp
  also have "\<dots> = drop (length zs + (length xs - 100)) (xs @ zs)" by (simp only: drop_drop)
  finally show ?thesis unfolding l r .
qed

lemma add_message_with_conv:
  "add_message_with C sid a sid = drop (length (C sid @ [message_of a]) - 100) (C sid @ [message_of a])"
  by (cases a) (simp add: add_message_with_def message_of_def add_message_def ltrim_last_100)

lemma add_message_with_other:
  "k \<noteq> sid \<Longrightarrow> add_message_with C sid a k = C k"
  by (cases a) (simp add: add_message_with_def add_message_def)

lemma add_all_conv:
  "calls \<noteq> [] \<Longrightarrow> add_all C sid calls sid
     = drop (length (C sid @ map message_of calls) - 100) (C sid @ map message_of calls)"
proof (induction calls arbitrary: C)
  case Nil
  then show ?case by simp
next
  case (Cons a as)
  show ?case
  proof (cases "as = []")
    case True
    then show ?thesis by (simp add: add_message_with_conv)
  next
    case False
    have "add_all C sid (a # as) sid = add_all (add_message_with C sid a) sid as sid" by simp
    also have "\<dots> = drop (length (add_message_with C sid a sid @ map message_of as) - 100)
                          (add_message_with C sid a sid @ map message_of as)"
      using Cons.IH[OF False] .
    also have "\<dots> = drop (length ((C sid @ [message_of a]) @ map message_of as) - 100)
                          ((C sid @ [message_of a]) @ map message_of as)"
      unfolding add_message_with_conv by (rule drop_last_100_append)
    finally show ?thesis by simp
  qed
qed

lemma conversation_capped:
  "length (get_conversation (add_all (init_conversation C sid prompt) sid calls) sid) \<le> 100"
proof (cases "calls = []")
  case True
  then show ?thesis by (simp add: get_conversation_def init_conversation_def)
next
  case False
  show ?thesis unfolding get_conversation_def add_all_conv[OF False] by simp
qed

text \<open>
  Claim C2 (conversation history trimming). After \<open>init_conversation\<close> and any sequence
  of \<open>add_message\<close> calls on the session, the stored history holds at most 100 entries.
  The trimming keeps the last 100 entries of the list, whatever their role: from the
  hundredth \<open>add_message\<close> call on, the history is exactly the last 100 added messages and
  the system prompt written by \<open>init_conversation\<close> is no longer in it.
\<close>

theorem history_is_last_100_added:
  "length (get_conversation (add_all (init_conversation C sid prompt) sid calls) sid) \<le> 100
   \<and> (100 \<le> length calls \<longrightarrow>
        get_conversation (add_all (init_conversation C sid prompt) sid calls) sid
        = drop (length calls - 100) (map message_of calls))"
proof (intro conjI impI)
  show "length (get_conversation (add_all (init_conversation C sid prompt) sid calls) sid) \<le> 100"
    by (rule conversation_capped)
next
  assume big: "100 \<le> length calls"
  then have ne: "calls \<noteq> []" by auto
  have i: "init_conversation C sid prompt sid = [system_message prompt]"
    by (simp add: init_conversation_def system_message_def)
  have "length ([system_message prompt] @ map message_of calls) - 100 = Suc (length calls - 100)"
    using big by simp
  then show "get_conversation (add_all (init_conversation C sid prompt) sid calls) sid
             = drop (length calls - 100) (map message_of calls)"
    unfolding get_conversation_def add_all_conv[OF ne] i by simp
qed

theorem history_is_last_100_added_witness:
  "100 \<le> length (replicate 100 (''user'', ''hello'', [], None, None) :: add_message_args list)
   \<and> get_conversation
        (add_all (init_conversation (\<lambda>k. []) ''sess_0123456789ab'' ''You are a voice assistant.'')
                 ''sess_0123456789ab'' (replicate 100 (''user'', ''hello'', [], None, None)))
        ''sess_0123456789ab''
      = replicate 100 \<lparr>msg_role = ''user'', msg_content = ''hello'', msg_tool_calls = [],
                        msg_tool_call_id = None, msg_name = None\<rparr>"
  using history_is_last_100_added
          [of "\<lambda>k. []" "''sess_0123456789ab''" "''You are a voice assistant.''"
              "replicate 100 (''user'', ''hello'', [], None, None)"]
  by (simp add: message_of_def new_message_def if_true_def)

section \<open>The agent loop\<close>







end
